theory Spec2Isabelle
  imports Main "HOL-Library.Sublist"
begin

section \<open>Python strings\<close>

text \<open>
  A Python \<open>str\<close> is modelled as a \<open>string\<close> (a list of 8-bit characters), which is
  exact for the ASCII text the scripts handle (hex strings, URLs, SPDX identifiers).
  \<open>sub in s\<close> is \<open>contains sub s\<close>, \<open>s.startswith(p)\<close> is \<open>startswith s p\<close>,
  \<open>s.lower()\<close> maps the letters A-Z to a-z and leaves every other character alone.
\<close>

definition startswith :: "string \<Rightarrow> string \<Rightarrow> bool" where
  "startswith s p = prefix p s"

fun contains :: "string \<Rightarrow> string \<Rightarrow> bool" where
  "contains sub [] = (sub = [])"
| "contains sub (c # cs) = (prefix sub (c # cs) \<or> contains sub cs)"

definition lower_char :: "char \<Rightarrow> char" where
  "lower_char c =
     (case map_of (zip ''ABCDEFGHIJKLMNOPQRSTUVWXYZ'' ''abcdefghijklmnopqrstuvwxyz'') c of
        None \<Rightarrow> c
      | Some l \<Rightarrow> l)"

definition lower :: "string \<Rightarrow> string" where
  "lower s = map lower_char s"

section \<open>Verification client: license classification\<close>

text \<open>
  The license block of \<open>publish_source\<close>: \<open>license_code\<close> starts at 1 and the
  \<open>if\<close>/\<open>elif\<close> chain over the lowercased identifier overwrites it. The LGPL and GPL
  branches hold a nested \<open>if\<close>/\<open>elif\<close> with no \<open>else\<close>, so they can leave the
  initial value in place.
\<close>

definition license_code :: "string \<Rightarrow> int" where
  "license_code license_identifier =
     (let license_code0 = 1;
          identifier = lower license_identifier
      in if contains ''unlicensed'' identifier then 2
         else if contains ''mit'' identifier then 3
         else if contains ''agpl'' identifier \<and> contains ''3.0'' identifier then 13
         else if contains ''lgpl'' identifier then
           (if contains ''2.1'' identifier then 6
            else if contains ''3.0'' identifier then 7
            else license_code0)
         else if contains ''gpl'' identifier then
           (if contains ''2.0'' identifier then 4
            else if contains ''3.0'' identifier then 5
            else license_code0)
         else if contains ''bsd-2-clause'' identifier then 8
         else if contains ''bsd-3-clause'' identifier then 9
         else if contains ''mpl'' identifier \<and> contains ''2.0'' identifier then 10
         else if startswith identifier ''osl'' \<and> contains ''3.0'' identifier then 11
         else if contains ''apache'' identifier \<and> contains ''2.0'' identifier then 12
         else license_code0)"


text \<open>
  The spec's reading of the same block, as a priority table: each row is a license family
  (a test on the lowercased identifier) with the code chosen inside that family; the first
  row whose test holds decides, and no row gives the default code 1.
\<close>

definition license_table :: "((string \<Rightarrow> bool) \<times> (string \<Rightarrow> int)) list" where
  "license_table =
     [(\<lambda>s. contains ''unlicensed'' s, \<lambda>s. 2),
      (\<lambda>s. contains ''mit'' s, \<lambda>s. 3),
      (\<lambda>s. contains ''agpl'' s \<and> contains ''3.0'' s, \<lambda>s. 13),
      (\<lambda>s. contains ''lgpl'' s,
         \<lambda>s. if contains ''2.1'' s then 6 else if contains ''3.0'' s then 7 else 1),
      (\<lambda>s. contains ''gpl'' s,
         \<lambda>s. if contains ''2.0'' s then 4 else if contains ''3.0'' s then 5 else 1),
      (\<lambda>s. contains ''bsd-2-clause'' s, \<lambda>s. 8),
      (\<lambda>s. contains ''bsd-3-clause'' s, \<lambda>s. 9),
      (\<lambda>s. contains ''mpl'' s \<and> contains ''2.0'' s, \<lambda>s. 10),
      (\<lambda>s. startswith s ''osl'' \<and> contains ''3.0'' s, \<lambda>s. 11),
      (\<lambda>s. contains ''apache'' s \<and> contains ''2.0'' s, \<lambda>s. 12)]"

definition classify_by_priority :: "string \<Rightarrow> int" where
  "classify_by_priority license_identifier =
     (let s = lower license_identifier
      in case find (\<lambda>row. fst row s) license_table of
           None \<Rightarrow> 1
         | Some row \<Rightarrow> snd row s)"

section \<open>Verification client: data and environment\<close>

text \<open>
  Exceptions are values. \<open>ConnectionError code url text\<close> stands for the message
  \<open>Status {code} when querying {url}: {text}\<close>; the other constructors carry the
  message text.
\<close>

datatype error =
    ConnectionError int string string
  | ValueError string
  | TypeError string
  | IndexError string
  | KeyError string
  | AttributeError string

text \<open>
  The explorer answers with a JSON object \<open>{status, message, result}\<close>. \<open>d_status\<close> is
  the integer \<open>int(data["status"])\<close>; \<open>result\<close> is a string or a list of transaction
  objects, each a dictionary from field names to strings, held as the list of its items
  (the keys are distinct) and read with \<open>map_of\<close>.
\<close>

type_synonym tx = "(string \<times> string) list"

datatype jresult = RStr string | RList "tx list"

record api_data =
  d_status :: int
  d_message :: string
  d_result :: jresult

record response =
  status_code :: int
  body_text :: string
  body_json :: api_data

datatype pval = PStr string | PInt int | PRes jresult

type_synonym params = "(string \<times> pval) list"

datatype request = GET string params | POST string params

text \<open>
  The effects of a run: the HTTP requests issued, in order, and the seconds spent in
  \<open>time.sleep\<close>. Console output (all that \<open>silent\<close> governs) is left out.
\<close>

record world =
  requests :: "request list"
  slept :: nat

record build =
  language :: string
  contractName :: string
  compiler_version :: string
  optimizer_enabled :: bool
  optimizer_runs :: int
  bytecode :: string

record flattener =
  standard_input_json :: string
  license :: string
  contract_file :: string
  contract_name :: string

record container =
  c_build :: build
  c_flattener :: "flattener option"

record info =
  standard_json_input :: string
  info_contract_name :: string
  info_compiler_version :: string
  info_optimizer_enabled :: bool
  info_optimizer_runs :: int
  license_identifier :: string
  bytecode_len :: nat

text \<open>
  What the function reads from outside the repository: the active network's explorer URL,
  brownie's table \<open>_explorer_tokens\<close> (its items in order), the process environment,
  \<open>urlparse(url).netloc\<close>, brownie's \<open>_resolve_address\<close> and \<open>Flattener\<close>, Python's
  \<open>str\<close> of a list of dictionaries, and the explorer itself: \<open>server k\<close> is its
  response to the request number \<open>k\<close> of the run (counted from 0).
\<close>

record env =
  explorer :: "string option"
  explorer_tokens :: "(string \<times> string) list"
  environ :: "string \<Rightarrow> string option"
  netloc :: "string \<Rightarrow> string"
  resolve_address :: "string \<Rightarrow> error + string"
  new_flattener :: "build \<Rightarrow> flattener"
  str_list :: "tx list \<Rightarrow> string"
  server :: "nat \<Rightarrow> response"

fun join :: "string \<Rightarrow> string list \<Rightarrow> string" where
  "join sep [] = []"
| "join sep [x] = x"
| "join sep (x # y # ys) = x @ sep @ join sep (y # ys)"

text \<open>\<open>s.index(sub)\<close>: the lowest index where \<open>sub\<close> starts, \<open>None\<close> where Python raises.\<close>

fun str_index :: "string \<Rightarrow> string \<Rightarrow> nat option" where
  "str_index [] sub = (if sub = [] then Some 0 else None)"
| "str_index (c # cs) sub =
     (if prefix sub (c # cs) then Some 0 else map_option Suc (str_index cs sub))"

text \<open>An interpolated \<open>{data['result']}\<close>: a string as it is, a list through \<open>str\<close>.\<close>

definition str_result :: "env \<Rightarrow> jresult \<Rightarrow> string" where
  "str_result E r = (case r of RStr s \<Rightarrow> s | RList txs \<Rightarrow> str_list E txs)"

text \<open>\<open>os.getenv(name)\<close> as a condition: an unset or empty variable is falsy.\<close>

definition getenv :: "env \<Rightarrow> string \<Rightarrow> string option" where
  "getenv E name =
     (case environ E name of
        None \<Rightarrow> None
      | Some v \<Rightarrow> if v = [] then None else Some v)"

section \<open>Verification client: get_verification_info\<close>

definition get_verification_info :: "env \<Rightarrow> container \<Rightarrow> error + (info \<times> container)" where
  "get_verification_info E self =
     (let lang = language (c_build self)
      in if lang = ''Vyper'' then
           Inl (TypeError (''Etherscan does not support API verification of source code ''
                           @ ''for vyper contracts. You need to verify the source manually''))
         else if lang = ''Solidity'' then
           (let fl = (case c_flattener self of
                        None \<Rightarrow> new_flattener E (c_build self)
                      | Some f \<Rightarrow> f);
                self' = self\<lparr>c_flattener := Some fl\<rparr>;
                build_json = c_build self'
            in Inr (\<lparr>standard_json_input = standard_input_json fl,
                     info_contract_name = contractName build_json,
                     info_compiler_version = compiler_version build_json,
                     info_optimizer_enabled = optimizer_enabled build_json,
                     info_optimizer_runs = optimizer_runs build_json,
                     license_identifier = license fl,
                     bytecode_len = length (bytecode build_json)\<rparr>, self'))
         else Inl (TypeError (''Unsupported language for source verification: '' @ lang)))"

section \<open>Verification client: publish_source\<close>

text \<open>
  The credential checks at the head of \<open>publish_source\<close>: the explorer URL, the token
  name of the first table key that occurs in the URL, and the API key from the
  environment. The message of the missing-key error is built from the host name, with
  \<open>host.index(".")\<close> raising where the host has no dot.
\<close>

definition resolve_api_key :: "env \<Rightarrow> error + (string \<times> string)" where
  "resolve_api_key E =
     (case explorer E of
        None \<Rightarrow> Inl (ValueError ''Explorer API not set for this network'')
      | Some url \<Rightarrow>
          (case map snd (filter (\<lambda>kv. contains (fst kv) url) (explorer_tokens E)) of
             [] \<Rightarrow>
               Inl (ValueError (''Publishing source is only supported on ''
                                @ join '', '' (map fst (explorer_tokens E))
                                @ '',change the Explorer API''))
           | env_token # _ \<Rightarrow>
               (case getenv E env_token of
                  Some api_key \<Rightarrow> Inr (url, api_key)
                | None \<Rightarrow>
                    (let host = netloc E url
                     in case str_index host ''.'' of
                          None \<Rightarrow> Inl (ValueError ''substring not found'')
                        | Some i \<Rightarrow>
                            (let host = drop (i + 1) host
                             in Inl (ValueError
                                  (''An API token is required to verify contract source code. ''
                                   @ ''Visit https://'' @ host @ ''/ ''
                                   @ ''to obtain a token, and then store it as ''
                                   @ ''the environment variable $'' @ env_token)))))))"

definition params_tx :: "string \<Rightarrow> string \<Rightarrow> params" where
  "params_tx api_key address =
     [(''apikey'', PStr api_key),
      (''module'', PStr ''account''),
      (''action'', PStr ''txlist''),
      (''address'', PStr address),
      (''page'', PInt 1),
      (''sort'', PStr ''asc''),
      (''offset'', PInt 1)]"

text \<open>
  The first \<open>while True\<close> loop, with its counter \<open>i\<close>: one GET per round; a status other
  than 1 raises once \<open>i\<close> has reached 10, and otherwise sleeps 10 seconds and goes round
  again.
\<close>

function txlist_loop ::
  "env \<Rightarrow> string \<Rightarrow> params \<Rightarrow> nat \<Rightarrow> world \<Rightarrow> (error + api_data) \<times> world" where
  "txlist_loop E url ps i w =
     (let resp = server E (length (requests w));
          w1 = w\<lparr>requests := requests w @ [GET url ps]\<rparr>
      in if status_code resp \<noteq> 200 then
           (Inl (ConnectionError (status_code resp) url (body_text resp)), w1)
         else
           (let data = body_json resp
            in if d_status data = 1 then (Inr data, w1)
               else if i \<ge> 10 then
                 (Inl (ValueError (''API request failed with: ''
                                   @ str_result E (d_result data))), w1)
               else txlist_loop E url ps (i + 1) (w1\<lparr>slept := slept w1 + 10\<rparr>)))"
  by pat_completeness auto
termination
  by (relation "measure (\<lambda>(E, url, ps, i, w). 11 - i)") auto

declare txlist_loop.simps [simp del]

text \<open>
  The slice \<open>data["result"][0]["input"][bytecode_len + 2:]\<close>, taken only when the
  message is "OK"; indexing an empty list, a string or a missing key raises.
\<close>

definition constructor_arguments :: "api_data \<Rightarrow> nat \<Rightarrow> error + string" where
  "constructor_arguments data blen =
     (if d_message data = ''OK'' then
        (case d_result data of
           RList [] \<Rightarrow> Inl (IndexError ''list index out of range'')
         | RList (t # ts) \<Rightarrow>
             (case map_of t ''input'' of
                None \<Rightarrow> Inl (KeyError ''input'')
              | Some inp \<Rightarrow> Inr (drop (blen + 2) inp))
         | RStr [] \<Rightarrow> Inl (IndexError ''string index out of range'')
         | RStr (c # cs) \<Rightarrow> Inl (TypeError ''string indices must be integers''))
      else Inr [])"

definition payload_verification ::
  "string \<Rightarrow> string \<Rightarrow> flattener \<Rightarrow> info \<Rightarrow> string \<Rightarrow> int \<Rightarrow> params" where
  "payload_verification api_key address fl contract_info constructor_args code =
     [(''apikey'', PStr api_key),
      (''module'', PStr ''contract''),
      (''action'', PStr ''verifysourcecode''),
      (''contractaddress'', PStr address),
      (''sourceCode'', PStr (standard_input_json fl)),
      (''codeformat'', PStr ''solidity-standard-json-input''),
      (''contractname'', PStr (contract_file fl @ '':'' @ contract_name fl)),
      (''compilerversion'', PStr (''v'' @ info_compiler_version contract_info)),
      (''optimizationUsed'', PInt (if info_optimizer_enabled contract_info then 1 else 0)),
      (''runs'', PInt (info_optimizer_runs contract_info)),
      (''constructorArguements'', PStr constructor_args),
      (''licenseType'', PInt code)]"

definition params_status :: "string \<Rightarrow> jresult \<Rightarrow> params" where
  "params_status api_key guid =
     [(''apikey'', PStr api_key),
      (''module'', PStr ''contract''),
      (''action'', PStr ''checkverifystatus''),
      (''guid'', PRes guid)]"

text \<open>
  The second \<open>while True\<close> loop has no bound: it goes round for as long as the explorer
  answers "Pending in queue", so it is a partial function, \<open>None\<close> standing for a run
  that never returns.
\<close>

partial_function (option) status_loop ::
  "env \<Rightarrow> string \<Rightarrow> params \<Rightarrow> world \<Rightarrow> ((error + bool) \<times> world) option" where
  "status_loop E url ps w =
     (let resp = server E (length (requests w));
          w1 = w\<lparr>requests := requests w @ [GET url ps]\<rparr>
      in if status_code resp \<noteq> 200 then
           Some (Inl (ConnectionError (status_code resp) url (body_text resp)), w1)
         else
           (let data = body_json resp
            in if d_result data = RStr ''Pending in queue'' then
                 status_loop E url ps (w1\<lparr>slept := slept w1 + 10\<rparr>)
               else Some (Inr (d_message data = ''OK''), w1)))"

declare status_loop.simps [code]

text \<open>The POST of the verification request and, when it is accepted, the status loop.\<close>

definition submit_verification ::
  "env \<Rightarrow> string \<Rightarrow> string \<Rightarrow> params \<Rightarrow> world \<Rightarrow> ((error + bool) \<times> world) option" where
  "submit_verification E url api_key payload w =
     (let resp = server E (length (requests w));
          w1 = w\<lparr>requests := requests w @ [POST url payload]\<rparr>
      in if status_code resp \<noteq> 200 then
           Some (Inl (ConnectionError (status_code resp) url (body_text resp)), w1)
         else
           (let data = body_json resp
            in if d_status data \<noteq> 1 then
                 Some (Inl (ValueError (''Failed to submit verification request: ''
                                        @ str_result E (d_result data))), w1)
               else
                 (let guid = d_result data;
                      w2 = w1\<lparr>slept := slept w1 + 10\<rparr>
                  in status_loop E url (params_status api_key guid) w2)))"

definition publish_source ::
  "env \<Rightarrow> container \<Rightarrow> string \<Rightarrow> world \<Rightarrow> ((error + bool) \<times> world) option" where
  "publish_source E self contract_address w =
     (case resolve_api_key E of
        Inl e \<Rightarrow> Some (Inl e, w)
      | Inr (url, api_key) \<Rightarrow>
     (case resolve_address E contract_address of
        Inl e \<Rightarrow> Some (Inl e, w)
      | Inr address \<Rightarrow>
     (case get_verification_info E self of
        Inl e \<Rightarrow> Some (Inl e, w)
      | Inr (contract_info, self') \<Rightarrow>
     (let code = license_code (license_identifier contract_info)
      in case txlist_loop E url (params_tx api_key address) 0 w of
           (Inl e, w1) \<Rightarrow> Some (Inl e, w1)
         | (Inr data, w1) \<Rightarrow>
     (case constructor_arguments data (bytecode_len contract_info) of
        Inl e \<Rightarrow> Some (Inl e, w1)
      | Inr constructor_args \<Rightarrow>
     (case c_flattener self' of
        None \<Rightarrow> Some (Inl (AttributeError ''standard_input_json''), w1)
      | Some fl \<Rightarrow>
          submit_verification E url api_key
            (payload_verification api_key address fl contract_info constructor_args code)
            w1))))))"

section \<open>A sample run of the verification client\<close>

text \<open>
  A concrete configuration on which the properties below are evaluated: an Etherscan
  network with its API key set, a Solidity build whose bytecode is 10 hex characters long,
  and explorer replies with HTTP status 200.
\<close>

definition ok_reply :: "int \<Rightarrow> string \<Rightarrow> jresult \<Rightarrow> response" where
  "ok_reply st msg res =
     \<lparr>status_code = 200, body_text = [],
      body_json = \<lparr>d_status = st, d_message = msg, d_result = res\<rparr>\<rparr>"

definition sample_build :: build where
  "sample_build =
     \<lparr>language = ''Solidity'', contractName = ''LensHub'',
      compiler_version = ''0.8.10+commit.fc410830'',
      optimizer_enabled = True, optimizer_runs = 200,
      bytecode = ''6080604052''\<rparr>"

definition sample_flattener :: flattener where
  "sample_flattener =
     \<lparr>standard_input_json = ''{}'', license = ''MIT'',
      contract_file = ''LensHub.sol'', contract_name = ''LensHub''\<rparr>"

definition sample_self :: container where
  "sample_self = \<lparr>c_build = sample_build, c_flattener = None\<rparr>"

definition sample_env :: "(nat \<Rightarrow> response) \<Rightarrow> env" where
  "sample_env srv =
     \<lparr>explorer = Some ''https://api.etherscan.io/api'',
      explorer_tokens = [(''etherscan'', ''ETHERSCAN_TOKEN''), (''bscscan'', ''BSCSCAN_TOKEN'')],
      environ = [''ETHERSCAN_TOKEN'' \<mapsto> ''KEY''],
      netloc = (\<lambda>url. ''api.etherscan.io''),
      resolve_address = Inr,
      new_flattener = (\<lambda>b. sample_flattener),
      str_list = (\<lambda>txs. case txs of [] \<Rightarrow> ''[]'' | t # ts \<Rightarrow> ''[...]''),
      server = srv\<rparr>"

definition sample_tx :: tx where
  "sample_tx = [(''input'', ''0x'' @ replicate 10 CHR ''a'' @ ''beef'')]"

definition start :: world where
  "start = \<lparr>requests = [], slept = 0\<rparr>"

text \<open>
  The same network reached through a local proxy, \<open>http://localhost:8080/etherscan/api\<close>,
  with no API key in the environment.
\<close>

definition proxy_env :: env where
  "proxy_env =
     (sample_env (\<lambda>k. ok_reply 1 ''OK'' (RList [sample_tx])))
       \<lparr>explorer := Some ''http://localhost:8080/etherscan/api'',
        environ := Map.empty,
        netloc := (\<lambda>url. ''localhost:8080'')\<rparr>"

section \<open>Deployment orchestrator: bytecode patching\<close>

text \<open>
  \<open>s.replace(old, new)\<close>: every occurrence of \<open>old\<close> found by one scan from the left,
  the scan going on behind each occurrence it has replaced. An empty \<open>old\<close> puts
  \<open>new\<close> before every character and at the end.
\<close>

function replace :: "string \<Rightarrow> string \<Rightarrow> string \<Rightarrow> string" where
  "replace [] old new = (if old = [] then new else [])"
| "replace (c # cs) old new =
     (if old = [] then new @ c # replace cs old new
      else if prefix old (c # cs) then new @ replace (drop (length old) (c # cs)) old new
      else c # replace cs old new)"
  by pat_completeness auto
termination
  by (relation "measure (\<lambda>(s, old, new). length s)") (auto simp: neq_Nil_conv)

text \<open>
  The three \<open>replace\<close> calls of \<open>main\<close> on LensHub's \<open>deployedBytecode\<close>, one per
  library placeholder, each with the library's address stripped of "0x" and lowercased.
\<close>

definition PublishingLogic_token :: string where
  "PublishingLogic_token = ''__$1f7cbacb1f9f5d323b85b0487838426c8d$__''"

definition InteractionLogic_token :: string where
  "InteractionLogic_token = ''__$1e68a60ae0444699fe08192a29ecc09930$__''"

definition ProfileTokenURILogic_token :: string where
  "ProfileTokenURILogic_token = ''__$f906f20d797116ee89ed79945048c6ad36$__''"

definition patch_bytecode :: "string \<Rightarrow> string \<Rightarrow> string \<Rightarrow> string \<Rightarrow> string" where
  "patch_bytecode deployedBytecode publishingLogic interactionLogic profileTokenURILogic =
     (let bytecode_lh = deployedBytecode;
          bytecode_lh = replace bytecode_lh PublishingLogic_token
                          (lower (replace publishingLogic ''0x'' []));
          bytecode_lh = replace bytecode_lh InteractionLogic_token
                          (lower (replace interactionLogic ''0x'' []));
          bytecode_lh = replace bytecode_lh ProfileTokenURILogic_token
                          (lower (replace profileTokenURILogic ''0x'' []))
      in bytecode_lh)"

text \<open>
  An account or contract address as the chain client gives it: "0x" and 40 hex digits.
\<close>

definition is_address :: "string \<Rightarrow> bool" where
  "is_address a =
     (take 2 a = ''0x'' \<and> length a = 42
      \<and> list_all (\<lambda>c. c \<in> set ''0123456789abcdefABCDEF'') (drop 2 a))"

text \<open>
  Unlinked bytecode as the compiler writes it: stretches of code with placeholders
  between them. \<open>render f\<close> writes it out with \<open>f\<close> deciding the text of each
  placeholder.
\<close>

datatype library = PublishingLogic | InteractionLogic | ProfileTokenURILogic

datatype piece = Code string | Placeholder library

fun token :: "library \<Rightarrow> string" where
  "token PublishingLogic = PublishingLogic_token"
| "token InteractionLogic = InteractionLogic_token"
| "token ProfileTokenURILogic = ProfileTokenURILogic_token"

fun render :: "(library \<Rightarrow> string) \<Rightarrow> piece list \<Rightarrow> string" where
  "render f [] = []"
| "render f (Code h # ps) = h @ render f ps"
| "render f (Placeholder l # ps) = f l @ render f ps"

fun code_pieces :: "piece list \<Rightarrow> string list" where
  "code_pieces [] = []"
| "code_pieces (Code h # ps) = h # code_pieces ps"
| "code_pieces (Placeholder l # ps) = code_pieces ps"

text \<open>
  The text that stands for each library once LensHub is linked: the library's address
  without its "0x", in lower case.
\<close>

definition linked :: "string \<Rightarrow> string \<Rightarrow> string \<Rightarrow> library \<Rightarrow> string" where
  "linked publishingLogic interactionLogic profileTokenURILogic l =
     (case l of
        PublishingLogic \<Rightarrow> lower (drop 2 publishingLogic)
      | InteractionLogic \<Rightarrow> lower (drop 2 interactionLogic)
      | ProfileTokenURILogic \<Rightarrow> lower (drop 2 profileTokenURILogic))"

section \<open>Deployment orchestrator: main\<close>

text \<open>
  The chain as the script sees it. A transaction is sent from an account with an explicit
  nonce; a deployment answers with the address of the new contract. That address is a
  function of the sender and of the nonce the transaction carries (\<open>create_address\<close>),
  and \<open>deployer.get_deployment_address(nonce)\<close> computes the same function ahead of
  time. \<open>tx_count\<close> is each account's transaction count when the run starts; during the
  run only the script sends from its accounts, so the count read later is the initial
  one plus the transactions sent so far. \<open>tx_fails k\<close> says whether the transaction
  number \<open>k\<close> of the run (from 0) fails, which ends the run. \<open>accounts\<close> are the
  addresses of brownie's account list once the configured keys are added (fewer than
  three make \<open>accounts[i]\<close> raise), \<open>contract_verification\<close> is the value of the
  CONTRACT_VERIFICATION environment flag, and \<open>lenshub_json\<close> is the
  \<open>deployedBytecode\<close> of build/contracts/LensHub.json. A call is a deployment (contract
  name, constructor arguments, \<open>publish_source\<close> flag) or a method call on a contract;
  \<open>InitData\<close> stands for the encoded \<open>initialize(name, symbol, governance)\<close> call.
\<close>

type_synonym address = string

datatype arg = Addr address | Num int | Flag bool | InitData address string string address

datatype call = Deploy string "arg list" bool | Invoke address string "arg list"

record transaction =
  tx_from :: address
  tx_nonce :: nat
  tx_call :: call

datatype deploy_error = NotConnected string | AccountMissing | TransactionFailed nat

record network =
  network_id :: string
  network_type :: string
  contract_verification :: bool
  connected :: bool
  accounts :: "address list"
  tx_count :: "address \<Rightarrow> nat"
  create_address :: "address \<Rightarrow> nat \<Rightarrow> address"
  tx_fails :: "nat \<Rightarrow> bool"
  lenshub_json :: string

record run_state =
  sent :: "transaction list"
  deployedBytecode :: string

type_synonym 'a action = "run_state \<Rightarrow> (deploy_error + 'a) \<times> run_state"

definition and_then :: "'a action \<Rightarrow> ('a \<Rightarrow> 'b action) \<Rightarrow> 'b action" where
  "and_then m f s = (case m s of (Inl e, s') \<Rightarrow> (Inl e, s') | (Inr x, s') \<Rightarrow> f x s')"

definition finish :: "'a \<Rightarrow> 'a action" where
  "finish x s = (Inr x, s)"

definition TREASURY_FEE_BPS :: int where
  "TREASURY_FEE_BPS = 50"

definition LENS_HUB_NFT_NAME :: string where
  "LENS_HUB_NFT_NAME = ''Lens Protocol Profiles''"

definition LENS_HUB_NFT_SYMBOL :: string where
  "LENS_HUB_NFT_SYMBOL = ''LPP''"

text \<open>Verification is forced off on a local network.\<close>

definition CONTRACT_VERIFICATION :: "network \<Rightarrow> bool" where
  "CONTRACT_VERIFICATION N =
     (if network_type N = ''local'' then False else contract_verification N)"

definition getTransactionCount :: "network \<Rightarrow> address \<Rightarrow> nat action" where
  "getTransactionCount N a s =
     (Inr (tx_count N a + length (filter (\<lambda>t. tx_from t = a) (sent s))), s)"

definition get_deployment_address :: "network \<Rightarrow> address \<Rightarrow> nat \<Rightarrow> address" where
  "get_deployment_address N account nonce = create_address N account nonce"

text \<open>
  \<open>Contract.deploy(args, {"from": sender, "nonce": nonce}, publish_source=flag)\<close> and a
  call of a contract method with \<open>{"from": sender, "nonce": nonce}\<close>.
\<close>

definition deploy ::
  "network \<Rightarrow> string \<Rightarrow> arg list \<Rightarrow> address \<Rightarrow> nat \<Rightarrow> bool \<Rightarrow> address action" where
  "deploy N name args sender nonce publish s =
     (let k = length (sent s);
          s' = s\<lparr>sent := sent s @ [\<lparr>tx_from = sender, tx_nonce = nonce,
                                   tx_call = Deploy name args publish\<rparr>]\<rparr>
      in if tx_fails N k then (Inl (TransactionFailed k), s')
         else (Inr (create_address N sender nonce), s'))"

definition transact ::
  "network \<Rightarrow> address \<Rightarrow> string \<Rightarrow> arg list \<Rightarrow> address \<Rightarrow> nat \<Rightarrow> unit action" where
  "transact N target method args sender nonce s =
     (let k = length (sent s);
          s' = s\<lparr>sent := sent s @ [\<lparr>tx_from = sender, tx_nonce = nonce,
                                   tx_call = Invoke target method args\<rparr>]\<rparr>
      in if tx_fails N k then (Inl (TransactionFailed k), s') else (Inr (), s'))"

definition patch_lenshub :: "address \<Rightarrow> address \<Rightarrow> address \<Rightarrow> unit action" where
  "patch_lenshub publishingLogic interactionLogic profileTokenURILogic s =
     (Inr (), s\<lparr>deployedBytecode :=
                  patch_bytecode (deployedBytecode s)
                    publishingLogic interactionLogic profileTokenURILogic\<rparr>)"

text \<open>
  \<open>main\<close>, statement by statement: the result is the address registry it writes, or
  the error that ended the run, with the transactions sent and the patched artifact.
  \<open>deployment\<close> is the part of \<open>main\<close> behind the reading of the three accounts;
  \<open>deployerNonce += 1\<close> and \<open>governanceNonce += 1\<close> are the rebinding \<open>let\<close>s.
\<close>

definition deployment ::
  "network \<Rightarrow> address \<Rightarrow> address \<Rightarrow> address \<Rightarrow> (string \<times> address) list action" where
  "deployment N deployer governance treasuryAddress =
     (let proxyAdminAddress = deployer;
          profileCreatorAddress = deployer in
      and_then (getTransactionCount N deployer) (\<lambda>deployerNonce.
      and_then (deploy N ''ModuleGlobals'' [Addr governance, Addr treasuryAddress, Num TREASURY_FEE_BPS] deployer deployerNonce (CONTRACT_VERIFICATION N)) (\<lambda>moduleGlobals.
      let deployerNonce = deployerNonce + 1 in
      and_then (deploy N ''PublishingLogic'' [] deployer deployerNonce (CONTRACT_VERIFICATION N)) (\<lambda>publishingLogic.
      let deployerNonce = deployerNonce + 1 in
      and_then (deploy N ''InteractionLogic'' [] deployer deployerNonce (CONTRACT_VERIFICATION N)) (\<lambda>interactionLogic.
      let deployerNonce = deployerNonce + 1 in
      and_then (deploy N ''ProfileTokenURILogic'' [] deployer deployerNonce (CONTRACT_VERIFICATION N)) (\<lambda>profileTokenURILogic.
      let deployerNonce = deployerNonce + 1 in
      and_then (patch_lenshub publishingLogic interactionLogic profileTokenURILogic) (\<lambda>u.
      let followNFTNonce = deployerNonce + 1;
          collectNFTNonce = deployerNonce + 2;
          hubProxyNonce = deployerNonce + 3;
          followNFTImplAddress = get_deployment_address N deployer followNFTNonce;
          collectNFTImplAddress = get_deployment_address N deployer collectNFTNonce;
          hubProxyAddress = get_deployment_address N deployer hubProxyNonce in
      and_then (deploy N ''LensHub'' [Addr followNFTImplAddress, Addr collectNFTImplAddress] deployer deployerNonce (CONTRACT_VERIFICATION N)) (\<lambda>lensHubImpl.
      let deployerNonce = deployerNonce + 1 in
      and_then (deploy N ''FollowNFT'' [Addr hubProxyAddress] deployer deployerNonce (CONTRACT_VERIFICATION N)) (\<lambda>followNFT.
      let deployerNonce = deployerNonce + 1 in
      and_then (deploy N ''CollectNFT'' [Addr hubProxyAddress] deployer deployerNonce (CONTRACT_VERIFICATION N)) (\<lambda>collectNFT.
      let deployerNonce = deployerNonce + 1 in
      let data_lh_init = InitData lensHubImpl LENS_HUB_NFT_NAME LENS_HUB_NFT_SYMBOL governance in
      and_then (deploy N ''TransparentUpgradeableProxy'' [Addr lensHubImpl, Addr proxyAdminAddress, data_lh_init] deployer deployerNonce False) (\<lambda>proxy.
      let deployerNonce = deployerNonce + 1 in
      let lensHub = proxy in
      and_then (deploy N ''LensPeriphery'' [Addr lensHub] deployer deployerNonce False) (\<lambda>lensPeriphery.
      let deployerNonce = deployerNonce + 1 in
      and_then (deploy N ''Currency'' [] deployer deployerNonce False) (\<lambda>currency.
      let deployerNonce = deployerNonce + 1 in
      and_then (deploy N ''FeeCollectModule'' [Addr lensHub, Addr moduleGlobals] deployer deployerNonce False) (\<lambda>feeCollectModule.
      let deployerNonce = deployerNonce + 1 in
      and_then (deploy N ''LimitedFeeCollectModule'' [Addr lensHub, Addr moduleGlobals] deployer deployerNonce False) (\<lambda>limitedFeeCollectModule.
      let deployerNonce = deployerNonce + 1 in
      and_then (deploy N ''TimedFeeCollectModule'' [Addr lensHub, Addr moduleGlobals] deployer deployerNonce False) (\<lambda>timedFeeCollectModule.
      let deployerNonce = deployerNonce + 1 in
      and_then (deploy N ''LimitedTimedFeeCollectModule'' [Addr lensHub, Addr moduleGlobals] deployer deployerNonce False) (\<lambda>limitedTimedFeeCollectModule.
      let deployerNonce = deployerNonce + 1 in
      and_then (deploy N ''RevertCollectModule'' [] deployer deployerNonce False) (\<lambda>revertCollectModule.
      let deployerNonce = deployerNonce + 1 in
      and_then (deploy N ''FreeCollectModule'' [Addr lensHub] deployer deployerNonce False) (\<lambda>freeCollectModule.
      let deployerNonce = deployerNonce + 1 in
      and_then (deploy N ''FeeFollowModule'' [Addr lensHub, Addr moduleGlobals] deployer deployerNonce False) (\<lambda>feeFollowModule.
      let deployerNonce = deployerNonce + 1 in
      and_then (deploy N ''ProfileFollowModule'' [Addr lensHub] deployer deployerNonce False) (\<lambda>profileFollowModule.
      let deployerNonce = deployerNonce + 1 in
      and_then (deploy N ''RevertFollowModule'' [Addr lensHub] deployer deployerNonce False) (\<lambda>revertFollowModule.
      let deployerNonce = deployerNonce + 1 in
      and_then (deploy N ''FollowerOnlyReferenceModule'' [Addr lensHub] deployer deployerNonce False) (\<lambda>followerOnlyReferenceModule.
      let deployerNonce = deployerNonce + 1 in
      and_then (deploy N ''UIDataProvider'' [Addr lensHub] deployer deployerNonce False) (\<lambda>uiDataProvider.
      let deployerNonce = deployerNonce + 1 in
      and_then (deploy N ''ProfileCreationProxy'' [Addr profileCreatorAddress, Addr lensHub] deployer deployerNonce False) (\<lambda>profileCreationProxy.
      let deployerNonce = deployerNonce + 1 in
      and_then (getTransactionCount N governance) (\<lambda>governanceNonce.
      and_then (transact N lensHub ''whitelistCollectModule'' [Addr feeCollectModule, Flag True] governance governanceNonce) (\<lambda>u.
      let governanceNonce = governanceNonce + 1 in
      and_then (transact N lensHub ''whitelistCollectModule'' [Addr limitedFeeCollectModule, Flag True] governance governanceNonce) (\<lambda>u.
      let governanceNonce = governanceNonce + 1 in
      and_then (transact N lensHub ''whitelistCollectModule'' [Addr timedFeeCollectModule, Flag True] governance governanceNonce) (\<lambda>u.
      let governanceNonce = governanceNonce + 1 in
      and_then (transact N lensHub ''whitelistCollectModule'' [Addr limitedTimedFeeCollectModule, Flag True] governance governanceNonce) (\<lambda>u.
      let governanceNonce = governanceNonce + 1 in
      and_then (transact N lensHub ''whitelistCollectModule'' [Addr revertCollectModule, Flag True] governance governanceNonce) (\<lambda>u.
      let governanceNonce = governanceNonce + 1 in
      and_then (transact N lensHub ''whitelistCollectModule'' [Addr freeCollectModule, Flag True] governance governanceNonce) (\<lambda>u.
      let governanceNonce = governanceNonce + 1 in
      and_then (transact N lensHub ''whitelistFollowModule'' [Addr feeFollowModule, Flag True] governance governanceNonce) (\<lambda>u.
      let governanceNonce = governanceNonce + 1 in
      and_then (transact N lensHub ''whitelistFollowModule'' [Addr profileFollowModule, Flag True] governance governanceNonce) (\<lambda>u.
      let governanceNonce = governanceNonce + 1 in
      and_then (transact N lensHub ''whitelistFollowModule'' [Addr revertFollowModule, Flag True] governance governanceNonce) (\<lambda>u.
      let governanceNonce = governanceNonce + 1 in
      and_then (transact N lensHub ''whitelistReferenceModule'' [Addr followerOnlyReferenceModule, Flag True] governance governanceNonce) (\<lambda>u.
      let governanceNonce = governanceNonce + 1 in
      and_then (transact N moduleGlobals ''whitelistCurrency'' [Addr currency, Flag True] governance governanceNonce) (\<lambda>u.
      let governanceNonce = governanceNonce + 1 in
      and_then (transact N lensHub ''whitelistProfileCreator'' [Addr profileCreationProxy, Flag True] governance governanceNonce) (\<lambda>u.
      let governanceNonce = governanceNonce + 1 in
      finish
        [(''lensHub proxy'', lensHub),
         (''lensHub impl:'', lensHubImpl),
         (''publishing logic lib'', publishingLogic),
         (''interaction logic lib'', interactionLogic),
         (''follow NFT impl'', followNFTImplAddress),
         (''collect NFT impl'', collectNFTImplAddress),
         (''currency'', currency),
         (''lens periphery'', lensPeriphery),
         (''module globals'', moduleGlobals),
         (''fee collect module'', feeCollectModule),
         (''limited fee collect module'', limitedFeeCollectModule),
         (''timed fee collect module'', timedFeeCollectModule),
         (''limited timed fee collect module'', limitedTimedFeeCollectModule),
         (''revert collect module'', revertCollectModule),
         (''free collect module'', freeCollectModule),
         (''fee follow module'', feeFollowModule),
         (''profile follow module'', profileFollowModule),
         (''revert follow module'', revertFollowModule),
         (''follower only reference module'', followerOnlyReferenceModule),
         (''UI data provider'', uiDataProvider),
         (''Profile creation proxy'', profileCreationProxy)]))))))))))))))))))))))))))))))))))))))"

definition main :: "network \<Rightarrow> (deploy_error + (string \<times> address) list) \<times> run_state" where
  "main N =
     (let s0 = \<lparr>sent = [], deployedBytecode = lenshub_json N\<rparr>
      in if \<not> connected N then
           (Inl (NotConnected (''Could not connect to network: '' @ network_id N)), s0)
         else
           (case accounts N of
              deployer # governance # treasuryAddress # others \<Rightarrow>
                deployment N deployer governance treasuryAddress s0
            | _ \<Rightarrow> (Inl AccountMissing, s0)))"

text \<open>
  The address a deployment transaction produces, and the test that a list of nonces
  counts up from \<open>n\<close> in steps of one.
\<close>

definition produced_address :: "network \<Rightarrow> transaction \<Rightarrow> address" where
  "produced_address N t = create_address N (tx_from t) (tx_nonce t)"

fun consecutive :: "nat \<Rightarrow> nat list \<Rightarrow> bool" where
  "consecutive n [] = True"
| "consecutive n (m # ms) = (m = n \<and> consecutive (Suc n) ms)"

text \<open>
  \<open>sends F L act\<close>: started in a state where the transactions sent so far are \<open>L\<close>,
  the action ends, with a result or with an error, such that \<open>F\<close> holds of that outcome
  and of the list of transactions sent by then.
\<close>

definition sends ::
  "((deploy_error + 'a) \<Rightarrow> transaction list \<Rightarrow> bool) \<Rightarrow> transaction list \<Rightarrow> 'a action \<Rightarrow> bool"
  where
  "sends F L act = (\<forall>s. sent s = L \<longrightarrow> F (fst (act s)) (sent (snd (act s))))"

text \<open>
  A sample network for the orchestrator: three accounts, the deployer with 7 and the
  others with 3 earlier transactions, every transaction of the run succeeding, and a toy
  address rule that writes the nonce in unary behind the sender.
\<close>

definition sample_network :: network where
  "sample_network =
     \<lparr>network_id = ''live'', network_type = ''testnet'', contract_verification = True,
      connected = True, accounts = [''0xD'', ''0xG'', ''0xT''],
      tx_count = (\<lambda>a. if a = ''0xD'' then 7 else 3),
      create_address = (\<lambda>a n. a @ '':'' @ replicate n CHR ''i''),
      tx_fails = (\<lambda>k. False), lenshub_json = ''6080''\<rparr>"

text \<open>
  \<open>ends F s act\<close>: run from the state \<open>s\<close>, the action ends in an outcome and a
  state of which \<open>F\<close> holds.
\<close>

definition ends ::
  "((deploy_error + 'a) \<times> run_state \<Rightarrow> bool) \<Rightarrow> run_state \<Rightarrow> 'a action \<Rightarrow> bool" where
  "ends F s act = F (act s)"

text \<open>
  The sample network with a chain that hands out well-formed addresses (the nonce as the
  last two hex digits) and a LensHub artifact that refers to two of the libraries.
\<close>

definition library_network :: network where
  "library_network =
     sample_network
       \<lparr>create_address :=
          (\<lambda>a n. ''0x00000000000000000000000000000000000000''
                 @ [''0123456789ABCDEF'' ! (n div 16), ''0123456789ABCDEF'' ! (n mod 16)]),
        lenshub_json :=
          ''6080'' @ PublishingLogic_token @ ''6001'' @ InteractionLogic_token
          @ PublishingLogic_token @ ''ff''\<rparr>"

section \<open>Properties of the license classification\<close>

lemmas license_eval = license_code_def lower_def lower_char_def startswith_def

text \<open>
  Claim C2, as the code has it. The classification is a function of the identifier alone:
  it is the first matching row of the priority table unlicensed, MIT, AGPL-3.0, LGPL
  (2.1, 3.0), GPL (2.0, 3.0), BSD-2-Clause, BSD-3-Clause, MPL-2.0, OSL-3.0 (the identifier
  starts with "osl"), Apache-2.0, and 1 when no row matches. It maps "MIT License" to 3,
  "SPDX: Unlicensed" to 2, "Weird custom text" to 1, and "GNU GPLv3 only" to 1, because
  that identifier holds neither "2.0" nor "3.0"; "GPL-3.0-only" is mapped to 5.
\<close>

theorem license_code_priority_table:
  "license_code i = classify_by_priority i
   \<and> license_code ''MIT License'' = 3
   \<and> license_code ''GNU GPLv3 only'' = 1
   \<and> license_code ''GPL-3.0-only'' = 5
   \<and> license_code ''SPDX: Unlicensed'' = 2
   \<and> license_code ''Weird custom text'' = 1"
proof -
  have table: "license_code i = classify_by_priority i"
    by (simp add: license_code_def classify_by_priority_def license_table_def Let_def)
  have mit: "license_code ''MIT License'' = 3"
    by (simp add: license_eval)
  have gplv3: "license_code ''GNU GPLv3 only'' = 1"
    by (simp add: license_eval)
  have gpl30: "license_code ''GPL-3.0-only'' = 5"
    by (simp add: license_eval)
  have unl: "license_code ''SPDX: Unlicensed'' = 2"
    by (simp add: license_eval)
  have weird: "license_code ''Weird custom text'' = 1"
    by (simp add: license_eval)
  from table mit gplv3 gpl30 unl weird show ?thesis
    by blast
qed

text \<open>
  Claim C2 as the spec states it fails: "GNU GPLv3 only" reaches the GPL branch, holds
  neither "2.0" nor "3.0", and keeps the default code.
\<close>

theorem license_code_gplv3_counterexample:
  "license_code ''GNU GPLv3 only'' \<noteq> 5"
  by (simp add: license_eval)

text \<open>
  Claim C10, as the code has it. For an identifier that holds neither "unlicensed" nor
  "mit" (the two branches tested first): if it holds "lgpl" but neither "2.1" nor "3.0",
  or if it holds "gpl" but neither "agpl" nor "lgpl" and neither "2.0" nor "3.0", the
  code is the default 1. And whatever else it holds, an identifier with "lgpl" in it
  never gets one of the codes 4 and 5 of the generic GPL branch.
\<close>

theorem license_code_gpl_family_default:
  "(\<not> contains ''unlicensed'' (lower i) \<and> \<not> contains ''mit'' (lower i)
      \<and> contains ''lgpl'' (lower i)
      \<and> \<not> contains ''2.1'' (lower i) \<and> \<not> contains ''3.0'' (lower i)
     \<longrightarrow> license_code i = 1)
   \<and> (\<not> contains ''unlicensed'' (lower i) \<and> \<not> contains ''mit'' (lower i)
      \<and> contains ''gpl'' (lower i)
      \<and> \<not> contains ''agpl'' (lower i) \<and> \<not> contains ''lgpl'' (lower i)
      \<and> \<not> contains ''2.0'' (lower i) \<and> \<not> contains ''3.0'' (lower i)
     \<longrightarrow> license_code i = 1)
   \<and> (contains ''lgpl'' (lower i) \<longrightarrow> license_code i \<noteq> 4 \<and> license_code i \<noteq> 5)"
  by (simp add: license_code_def Let_def)

theorem license_code_gpl_family_default_witness:
  "license_code ''LGPL-2.0-only'' = 1 \<and> license_code ''GPL-1.0-or-later'' = 1
   \<and> license_code ''LGPL-3.0-only'' \<noteq> 4 \<and> license_code ''LGPL-3.0-only'' \<noteq> 5"
proof -
  have a: "\<not> contains ''unlicensed'' (lower ''LGPL-2.0-only'')
      \<and> \<not> contains ''mit'' (lower ''LGPL-2.0-only'')
      \<and> contains ''lgpl'' (lower ''LGPL-2.0-only'')
      \<and> \<not> contains ''2.1'' (lower ''LGPL-2.0-only'')
      \<and> \<not> contains ''3.0'' (lower ''LGPL-2.0-only'')"
    by (simp add: lower_def lower_char_def)
  have b: "\<not> contains ''unlicensed'' (lower ''GPL-1.0-or-later'')
      \<and> \<not> contains ''mit'' (lower ''GPL-1.0-or-later'')
      \<and> contains ''gpl'' (lower ''GPL-1.0-or-later'')
      \<and> \<not> contains ''agpl'' (lower ''GPL-1.0-or-later'')
      \<and> \<not> contains ''lgpl'' (lower ''GPL-1.0-or-later'')
      \<and> \<not> contains ''2.0'' (lower ''GPL-1.0-or-later'')
      \<and> \<not> contains ''3.0'' (lower ''GPL-1.0-or-later'')"
    by (simp add: lower_def lower_char_def)
  have c: "contains ''lgpl'' (lower ''LGPL-3.0-only'')"
    by (simp add: lower_def lower_char_def)
  from a license_code_gpl_family_default [of "''LGPL-2.0-only''"]
  have r1: "license_code ''LGPL-2.0-only'' = 1" by blast
  from b license_code_gpl_family_default [of "''GPL-1.0-or-later''"]
  have r2: "license_code ''GPL-1.0-or-later'' = 1" by blast
  from c license_code_gpl_family_default [of "''LGPL-3.0-only''"]
  have r3: "license_code ''LGPL-3.0-only'' \<noteq> 4 \<and> license_code ''LGPL-3.0-only'' \<noteq> 5"
    by blast
  from r1 r2 r3 show ?thesis by blast
qed

text \<open>
  Claim C10 as the spec states it fails: "LGPL-2.0-only OR MIT" holds "lgpl" and neither
  "2.1" nor "3.0", yet the MIT branch, tested earlier, gives it the code 3.
\<close>

theorem license_code_lgpl_counterexample:
  "contains ''lgpl'' (lower ''LGPL-2.0-only OR MIT'')
   \<and> \<not> contains ''2.1'' (lower ''LGPL-2.0-only OR MIT'')
   \<and> \<not> contains ''3.0'' (lower ''LGPL-2.0-only OR MIT'')
   \<and> license_code ''LGPL-2.0-only OR MIT'' = 3
   \<and> license_code ''LGPL-2.0-only OR MIT'' \<noteq> 1"
  by (simp add: license_eval)

section \<open>Properties of the verification client\<close>


lemma txlist_loop_success:
  "\<forall>k<n. status_code (server E (length (requests w) + k)) = 200
        \<and> d_status (body_json (server E (length (requests w) + k))) \<noteq> 1 \<Longrightarrow>
   status_code (server E (length (requests w) + n)) = 200 \<Longrightarrow>
   d_status (body_json (server E (length (requests w) + n))) = 1 \<Longrightarrow>
   i + n \<le> 10 \<Longrightarrow>
   txlist_loop E url ps i w =
     (Inr (body_json (server E (length (requests w) + n))),
      w\<lparr>requests := requests w @ replicate (Suc n) (GET url ps),
        slept := slept w + 10 * n\<rparr>)"
proof (induction n arbitrary: i w)
  case 0
  then show ?case
    by (subst txlist_loop.simps) (simp add: Let_def)
next
  case (Suc n)
  let ?w' = "w\<lparr>requests := requests w @ [GET url ps], slept := slept w + 10\<rparr>"
  from Suc.prems(1) have first: "status_code (server E (length (requests w))) = 200"
    "d_status (body_json (server E (length (requests w)))) \<noteq> 1"
    by (metis add.right_neutral zero_less_Suc)+
  have shift: "\<forall>k<n. status_code (server E (length (requests ?w') + k)) = 200
        \<and> d_status (body_json (server E (length (requests ?w') + k))) \<noteq> 1"
  proof (intro allI impI)
    fix k assume "k < n"
    then have "Suc k < Suc n" by simp
    with Suc.prems(1) show "status_code (server E (length (requests ?w') + k)) = 200
        \<and> d_status (body_json (server E (length (requests ?w') + k))) \<noteq> 1"
      by (metis (no_types, lifting) add_Suc_right add_Suc length_append_singleton 
          world.select_convs(1) world.surjective world.update_convs(1) world.update_convs(2))
  qed
  have step: "txlist_loop E url ps i w = txlist_loop E url ps (Suc i) ?w'"
    using first Suc.prems(4) by (subst txlist_loop.simps) (simp add: Let_def)
  have "txlist_loop E url ps (Suc i) ?w' =
     (Inr (body_json (server E (length (requests ?w') + n))),
      ?w'\<lparr>requests := requests ?w' @ replicate (Suc n) (GET url ps),
        slept := slept ?w' + 10 * n\<rparr>)"
    using Suc.prems by (intro Suc.IH shift) simp_all
  with step show ?case
    by (simp add: replicate_app_Cons_same)
qed

lemma txlist_loop_failure:
  "\<forall>k\<le>n. status_code (server E (length (requests w) + k)) = 200
        \<and> d_status (body_json (server E (length (requests w) + k))) \<noteq> 1 \<Longrightarrow>
   i + n = 10 \<Longrightarrow>
   txlist_loop E url ps i w =
     (Inl (ValueError (''API request failed with: ''
            @ str_result E (d_result (body_json (server E (length (requests w) + n)))))),
      w\<lparr>requests := requests w @ replicate (Suc n) (GET url ps),
        slept := slept w + 10 * n\<rparr>)"
proof (induction n arbitrary: i w)
  case 0
  then show ?case
    by (subst txlist_loop.simps) (simp add: Let_def)
next
  case (Suc n)
  let ?w' = "w\<lparr>requests := requests w @ [GET url ps], slept := slept w + 10\<rparr>"
  from Suc.prems(1) have "status_code (server E (length (requests w) + 0)) = 200
     \<and> d_status (body_json (server E (length (requests w) + 0))) \<noteq> 1"
    by blast
  then have first: "status_code (server E (length (requests w))) = 200"
    "d_status (body_json (server E (length (requests w)))) \<noteq> 1"
    by simp_all
  have shift: "\<forall>k\<le>n. status_code (server E (length (requests ?w') + k)) = 200
        \<and> d_status (body_json (server E (length (requests ?w') + k))) \<noteq> 1"
  proof (intro allI impI)
    fix k assume "k \<le> n"
    then have "Suc k \<le> Suc n" by simp
    with Suc.prems(1) have "status_code (server E (length (requests w) + Suc k)) = 200
        \<and> d_status (body_json (server E (length (requests w) + Suc k))) \<noteq> 1"
      by blast
    then show "status_code (server E (length (requests ?w') + k)) = 200
        \<and> d_status (body_json (server E (length (requests ?w') + k))) \<noteq> 1"
      by simp
  qed
  have step: "txlist_loop E url ps i w = txlist_loop E url ps (Suc i) ?w'"
    using first Suc.prems(2) by (subst txlist_loop.simps) (simp add: Let_def)
  have "txlist_loop E url ps (Suc i) ?w' =
     (Inl (ValueError (''API request failed with: ''
            @ str_result E (d_result (body_json (server E (length (requests ?w') + n)))))),
      ?w'\<lparr>requests := requests ?w' @ replicate (Suc n) (GET url ps),
        slept := slept ?w' + 10 * n\<rparr>)"
    using Suc.prems by (intro Suc.IH shift) simp_all
  with step show ?case
    by (simp add: replicate_app_Cons_same)
qed



lemma get_verification_info_solidity:
  "language (c_build self) = ''Solidity'' \<Longrightarrow>
   \<exists>contract_info self'. get_verification_info E self = Inr (contract_info, self')"
  by (simp add: get_verification_info_def Let_def)

lemma get_verification_info_Inr:
  "get_verification_info E self = Inr (contract_info, self') \<Longrightarrow>
   language (c_build self) = ''Solidity''
   \<and> bytecode_len contract_info = length (bytecode (c_build self))
   \<and> (\<exists>fl. c_flattener self' = Some fl \<and> license_identifier contract_info = license fl)"
  by (auto simp add: get_verification_info_def Let_def split: if_splits)

lemma publish_source_after_indexing:
  "resolve_api_key E = Inr (url, api_key) \<Longrightarrow>
   resolve_address E contract_address = Inr address \<Longrightarrow>
   get_verification_info E self = Inr (contract_info, self') \<Longrightarrow>
   c_flattener self' = Some fl \<Longrightarrow>
   txlist_loop E url (params_tx api_key address) 0 w = (Inr data, w1) \<Longrightarrow>
   constructor_arguments data (bytecode_len contract_info) = Inr constructor_args \<Longrightarrow>
   publish_source E self contract_address w =
     submit_verification E url api_key
       (payload_verification api_key address fl contract_info constructor_args
          (license_code (license_identifier contract_info))) w1"
  by (simp add: publish_source_def Let_def)

lemma publish_source_indexing_error:
  "resolve_api_key E = Inr (url, api_key) \<Longrightarrow>
   resolve_address E contract_address = Inr address \<Longrightarrow>
   get_verification_info E self = Inr (contract_info, self') \<Longrightarrow>
   txlist_loop E url (params_tx api_key address) 0 w = (Inl e, w1) \<Longrightarrow>
   publish_source E self contract_address w = Some (Inl e, w1)"
  by (simp add: publish_source_def Let_def)

lemma status_loop_terminal:
  "\<forall>k<n. status_code (server E (length (requests w) + k)) = 200
        \<and> d_result (body_json (server E (length (requests w) + k))) = RStr ''Pending in queue'' \<Longrightarrow>
   status_code (server E (length (requests w) + n)) = 200 \<Longrightarrow>
   d_result (body_json (server E (length (requests w) + n))) \<noteq> RStr ''Pending in queue'' \<Longrightarrow>
   status_loop E url ps w =
     Some (Inr (d_message (body_json (server E (length (requests w) + n))) = ''OK''),
           w\<lparr>requests := requests w @ replicate (Suc n) (GET url ps),
             slept := slept w + 10 * n\<rparr>)"
proof (induction n arbitrary: w)
  case 0
  then show ?case
    by (subst status_loop.simps) (simp add: Let_def)
next
  case (Suc n)
  let ?w' = "w\<lparr>requests := requests w @ [GET url ps], slept := slept w + 10\<rparr>"
  from Suc.prems(1) have "status_code (server E (length (requests w) + 0)) = 200
     \<and> d_result (body_json (server E (length (requests w) + 0))) = RStr ''Pending in queue''"
    by blast
  then have first: "status_code (server E (length (requests w))) = 200"
    "d_result (body_json (server E (length (requests w)))) = RStr ''Pending in queue''"
    by simp_all
  have shift: "\<forall>k<n. status_code (server E (length (requests ?w') + k)) = 200
        \<and> d_result (body_json (server E (length (requests ?w') + k))) = RStr ''Pending in queue''"
  proof (intro allI impI)
    fix k assume "k < n"
    then have "Suc k < Suc n" by simp
    with Suc.prems(1) have "status_code (server E (length (requests w) + Suc k)) = 200
        \<and> d_result (body_json (server E (length (requests w) + Suc k))) = RStr ''Pending in queue''"
      by blast
    then show "status_code (server E (length (requests ?w') + k)) = 200
        \<and> d_result (body_json (server E (length (requests ?w') + k))) = RStr ''Pending in queue''"
      by simp
  qed
  have step: "status_loop E url ps w = status_loop E url ps ?w'"
    using first by (subst status_loop.simps) (simp add: Let_def)
  have "status_loop E url ps ?w' =
     Some (Inr (d_message (body_json (server E (length (requests ?w') + n))) = ''OK''),
           ?w'\<lparr>requests := requests ?w' @ replicate (Suc n) (GET url ps),
             slept := slept ?w' + 10 * n\<rparr>)"
    using Suc.prems by (intro Suc.IH shift) simp_all
  with step show ?case
    by (simp add: replicate_app_Cons_same)
qed


lemma status_loop_Some_not_all_pending:
  assumes "status_loop E url ps w = Some r"
  shows "\<exists>k. \<not> (status_code (server E k) = 200
          \<and> d_result (body_json (server E k)) = RStr ''Pending in queue'')"
proof (rule status_loop.raw_induct
    [where P = "\<lambda>E url ps w r. \<exists>k. \<not> (status_code (server E k) = 200
          \<and> d_result (body_json (server E k)) = RStr ''Pending in queue'')", OF _ assms])
  fix loop :: "env \<Rightarrow> string \<Rightarrow> params \<Rightarrow> world \<Rightarrow> ((error + bool) \<times> world) option"
  fix E url ps w r
  assume IH: "\<And>E url ps w r. loop E url ps w = Some r \<Longrightarrow>
      \<exists>k. \<not> (status_code (server E k) = 200
          \<and> d_result (body_json (server E k)) = RStr ''Pending in queue'')"
  assume body: "(let resp = server E (length (requests w));
          w1 = w\<lparr>requests := requests w @ [GET url ps]\<rparr>
      in if status_code resp \<noteq> 200 then
           Some (Inl (ConnectionError (status_code resp) url (body_text resp)), w1)
         else
           (let data = body_json resp
            in if d_result data = RStr ''Pending in queue'' then
                 loop E url ps (w1\<lparr>slept := slept w1 + 10\<rparr>)
               else Some (Inr (d_message data = ''OK''), w1))) = Some r"
  show "\<exists>k. \<not> (status_code (server E k) = 200
          \<and> d_result (body_json (server E k)) = RStr ''Pending in queue'')"
  proof (cases "status_code (server E (length (requests w))) = 200
          \<and> d_result (body_json (server E (length (requests w)))) = RStr ''Pending in queue''")
    case True
    with body have "loop E url ps (w\<lparr>requests := requests w @ [GET url ps],
        slept := slept w + 10\<rparr>) = Some r"
      by (simp add: Let_def)
    then show ?thesis by (rule IH)
  next
    case False
    then show ?thesis by blast
  qed
qed

lemma status_loop_diverges:
  "\<forall>k. status_code (server E k) = 200
        \<and> d_result (body_json (server E k)) = RStr ''Pending in queue'' \<Longrightarrow>
   status_loop E url ps w = None"
  using status_loop_Some_not_all_pending [of E url ps w]
  by (cases "status_loop E url ps w") auto

lemmas sample_defs = sample_env_def ok_reply_def sample_build_def sample_flattener_def
  sample_self_def sample_tx_def start_def

lemma resolve_api_key_sample:
  "resolve_api_key (sample_env srv) = Inr (''https://api.etherscan.io/api'', ''KEY'')"
  by (simp add: resolve_api_key_def sample_env_def getenv_def)

lemma get_verification_info_sample:
  "get_verification_info (sample_env srv) sample_self =
     Inr (\<lparr>standard_json_input = ''{}'', info_contract_name = ''LensHub'',
            info_compiler_version = ''0.8.10+commit.fc410830'',
            info_optimizer_enabled = True, info_optimizer_runs = 200,
            license_identifier = ''MIT'', bytecode_len = 10\<rparr>,
          sample_self\<lparr>c_flattener := Some sample_flattener\<rparr>)"
  by (simp add: get_verification_info_def sample_defs)

lemma txlist_loop_Inr_status:
  "txlist_loop E url ps i w = (Inr data, w1) \<Longrightarrow> d_status data = 1"
proof (induction E url ps i w rule: txlist_loop.induct)
  case (1 E url ps i w)
  from "1.prems" "1.IH" show ?case
    by (subst (asm) txlist_loop.simps) (auto simp: Let_def split: if_splits)
qed

text \<open>
  Claim C1. From any point of a run: when the next three txlist responses (HTTP 200)
  have a status other than 1 and the fourth has status 1, the loop issues exactly four
  GET requests, sleeps 30 seconds and goes on with the fourth response's data; when no
  response ever has status 1, it issues exactly eleven requests (the first and ten
  retries) and raises the ValueError "API request failed with: ..." holding the result of
  the eleventh response, which is then the outcome of \<open>publish_source\<close>.
\<close>

theorem txlist_loop_request_count:
  "((\<forall>k<3. status_code (server E (length (requests w) + k)) = 200
           \<and> d_status (body_json (server E (length (requests w) + k))) \<noteq> 1)
     \<and> status_code (server E (length (requests w) + 3)) = 200
     \<and> d_status (body_json (server E (length (requests w) + 3))) = 1
    \<longrightarrow> txlist_loop E url ps 0 w =
          (Inr (body_json (server E (length (requests w) + 3))),
           w\<lparr>requests := requests w @ replicate 4 (GET url ps), slept := slept w + 30\<rparr>))
   \<and> ((\<forall>k. status_code (server E k) = 200 \<and> d_status (body_json (server E k)) \<noteq> 1)
    \<longrightarrow> txlist_loop E url ps 0 w =
          (Inl (ValueError (''API request failed with: ''
                 @ str_result E (d_result (body_json (server E (length (requests w) + 10)))))),
           w\<lparr>requests := requests w @ replicate 11 (GET url ps), slept := slept w + 100\<rparr>))
   \<and> ((\<forall>k. status_code (server E k) = 200 \<and> d_status (body_json (server E k)) \<noteq> 1)
       \<and> resolve_api_key E = Inr (url, api_key)
       \<and> resolve_address E contract_address = Inr address
       \<and> language (c_build self) = ''Solidity''
    \<longrightarrow> publish_source E self contract_address w =
          Some (Inl (ValueError (''API request failed with: ''
                 @ str_result E (d_result (body_json (server E (length (requests w) + 10)))))),
                w\<lparr>requests := requests w @ replicate 11 (GET url (params_tx api_key address)),
                  slept := slept w + 100\<rparr>))"
proof -
  have never: "txlist_loop E url' ps' 0 w =
          (Inl (ValueError (''API request failed with: ''
                 @ str_result E (d_result (body_json (server E (length (requests w) + 10)))))),
           w\<lparr>requests := requests w @ replicate 11 (GET url' ps'), slept := slept w + 100\<rparr>)"
    if a: "\<forall>k. status_code (server E k) = 200 \<and> d_status (body_json (server E k)) \<noteq> 1"
    for url' ps'
  proof -
    from a have "\<forall>k\<le>10. status_code (server E (length (requests w) + k)) = 200
        \<and> d_status (body_json (server E (length (requests w) + k))) \<noteq> 1"
      by blast
    then show ?thesis
      using txlist_loop_failure [of 10 E w 0 url' ps'] by (simp add: eval_nat_numeral)
  qed
  have first: "txlist_loop E url ps 0 w =
          (Inr (body_json (server E (length (requests w) + 3))),
           w\<lparr>requests := requests w @ replicate 4 (GET url ps), slept := slept w + 30\<rparr>)"
    if a: "(\<forall>k<3. status_code (server E (length (requests w) + k)) = 200
           \<and> d_status (body_json (server E (length (requests w) + k))) \<noteq> 1)
     \<and> status_code (server E (length (requests w) + 3)) = 200
     \<and> d_status (body_json (server E (length (requests w) + 3))) = 1"
    using a txlist_loop_success [of 3 E w 0 url ps] by (simp add: eval_nat_numeral)
  have whole: "publish_source E self contract_address w =
          Some (Inl (ValueError (''API request failed with: ''
                 @ str_result E (d_result (body_json (server E (length (requests w) + 10)))))),
                w\<lparr>requests := requests w @ replicate 11 (GET url (params_tx api_key address)),
                  slept := slept w + 100\<rparr>)"
    if a: "\<forall>k. status_code (server E k) = 200 \<and> d_status (body_json (server E k)) \<noteq> 1"
      and b: "resolve_api_key E = Inr (url, api_key)"
        "resolve_address E contract_address = Inr address"
        "language (c_build self) = ''Solidity''"
  proof -
    from b(3) obtain contract_info self'
      where gvi: "get_verification_info E self = Inr (contract_info, self')"
      using get_verification_info_solidity by blast
    show ?thesis
      using publish_source_indexing_error [OF b(1) b(2) gvi never [OF a]] .
  qed
  from never first whole show ?thesis
    by blast
qed

theorem txlist_loop_request_count_witness:
  "txlist_loop
     (sample_env (\<lambda>k. if k < 3 then ok_reply 0 ''No transactions found'' (RList [])
                      else ok_reply 1 ''OK'' (RList [sample_tx])))
     ''https://api.etherscan.io/api'' (params_tx ''KEY'' ''0xabc'') 0 start =
     (Inr \<lparr>d_status = 1, d_message = ''OK'', d_result = RList [sample_tx]\<rparr>,
      \<lparr>requests = replicate 4 (GET ''https://api.etherscan.io/api'' (params_tx ''KEY'' ''0xabc'')),
       slept = 30\<rparr>)
   \<and> publish_source
       (sample_env (\<lambda>k. ok_reply 0 ''NOTOK'' (RStr ''Max rate limit reached'')))
       sample_self ''0xabc'' start =
     Some (Inl (ValueError ''API request failed with: Max rate limit reached''),
      \<lparr>requests = replicate 11 (GET ''https://api.etherscan.io/api'' (params_tx ''KEY'' ''0xabc'')),
       slept = 100\<rparr>)"
proof -
  let ?A = "sample_env (\<lambda>k. if k < 3 then ok_reply 0 ''No transactions found'' (RList [])
                      else ok_reply 1 ''OK'' (RList [sample_tx]))"
  let ?B = "sample_env (\<lambda>k. ok_reply 0 ''NOTOK'' (RStr ''Max rate limit reached''))"
  have hA: "(\<forall>k<3. status_code (server ?A (length (requests start) + k)) = 200
           \<and> d_status (body_json (server ?A (length (requests start) + k))) \<noteq> 1)
     \<and> status_code (server ?A (length (requests start) + 3)) = 200
     \<and> d_status (body_json (server ?A (length (requests start) + 3))) = 1"
    by (simp add: sample_defs)
  have hB: "(\<forall>k. status_code (server ?B k) = 200 \<and> d_status (body_json (server ?B k)) \<noteq> 1)
       \<and> resolve_api_key ?B = Inr (''https://api.etherscan.io/api'', ''KEY'')
       \<and> resolve_address ?B ''0xabc'' = Inr ''0xabc''
       \<and> language (c_build sample_self) = ''Solidity''"
    by (simp add: resolve_api_key_sample) (simp add: sample_defs)
  from hA txlist_loop_request_count
         [where E = ?A and w = start and url = "''https://api.etherscan.io/api''"
            and ps = "params_tx ''KEY'' ''0xabc''"]
  have "txlist_loop ?A ''https://api.etherscan.io/api'' (params_tx ''KEY'' ''0xabc'') 0 start =
          (Inr (body_json (server ?A (length (requests start) + 3))),
           start\<lparr>requests := requests start
                    @ replicate 4 (GET ''https://api.etherscan.io/api'' (params_tx ''KEY'' ''0xabc'')),
                 slept := slept start + 30\<rparr>)"
    by blast
  then have A: "txlist_loop ?A ''https://api.etherscan.io/api'' (params_tx ''KEY'' ''0xabc'') 0 start =
     (Inr \<lparr>d_status = 1, d_message = ''OK'', d_result = RList [sample_tx]\<rparr>,
      \<lparr>requests = replicate 4 (GET ''https://api.etherscan.io/api'' (params_tx ''KEY'' ''0xabc'')),
       slept = 30\<rparr>)"
    by (simp add: sample_env_def ok_reply_def start_def)
  from hB txlist_loop_request_count
         [where E = ?B and w = start and url = "''https://api.etherscan.io/api''"
            and api_key = "''KEY''" and contract_address = "''0xabc''"
            and address = "''0xabc''" and self = sample_self]
  have "publish_source ?B sample_self ''0xabc'' start =
          Some (Inl (ValueError (''API request failed with: ''
                 @ str_result ?B (d_result (body_json (server ?B (length (requests start) + 10)))))),
                start\<lparr>requests := requests start
                    @ replicate 11 (GET ''https://api.etherscan.io/api'' (params_tx ''KEY'' ''0xabc'')),
                  slept := slept start + 100\<rparr>)"
    by blast
  then have B: "publish_source ?B sample_self ''0xabc'' start =
     Some (Inl (ValueError ''API request failed with: Max rate limit reached''),
      \<lparr>requests = replicate 11 (GET ''https://api.etherscan.io/api'' (params_tx ''KEY'' ''0xabc'')),
       slept = 100\<rparr>)"
    by (simp add: sample_env_def ok_reply_def start_def str_result_def)
  from A B show ?thesis by blast
qed

lemma payload_constructor_arguments:
  "map_of (payload_verification api_key address fl contract_info constructor_args code)
     ''constructorArguements'' = Some (PStr constructor_args)"
  by (simp add: payload_verification_def)

text \<open>
  Claim C3. When the response that ends the indexing loop has the message "OK" and a
  transaction list whose first object has an "input" field, the constructor arguments are
  that input with its first \<open>bytecode_len + 2\<close> characters dropped, where
  \<open>bytecode_len\<close> is the length of the build's \<open>bytecode\<close> string; this is the value
  sent as \<open>constructorArguements\<close> in the verification request. With
  \<open>bytecode_len = 10\<close> and the input "0x" + "a"*10 + "beef" the arguments are "beef".
\<close>

theorem constructor_arguments_suffix:
  "(d_message data = ''OK'' \<and> d_result data = RList (t # ts) \<and> map_of t ''input'' = Some inp
    \<longrightarrow> constructor_arguments data blen = Inr (drop (blen + 2) inp))
   \<and> (resolve_api_key E = Inr (url, api_key)
       \<and> resolve_address E contract_address = Inr address
       \<and> get_verification_info E self = Inr (contract_info, self')
       \<and> c_flattener self' = Some fl
       \<and> txlist_loop E url (params_tx api_key address) 0 w = (Inr data, w1)
       \<and> d_message data = ''OK'' \<and> d_result data = RList (t # ts)
       \<and> map_of t ''input'' = Some inp
    \<longrightarrow> bytecode_len contract_info = length (bytecode (c_build self))
       \<and> publish_source E self contract_address w =
           submit_verification E url api_key
             (payload_verification api_key address fl contract_info
                (drop (length (bytecode (c_build self)) + 2) inp)
                (license_code (license_identifier contract_info))) w1
       \<and> map_of (payload_verification api_key address fl contract_info
                (drop (length (bytecode (c_build self)) + 2) inp)
                (license_code (license_identifier contract_info)))
            ''constructorArguements''
          = Some (PStr (drop (length (bytecode (c_build self)) + 2) inp)))
   \<and> constructor_arguments
        \<lparr>d_status = 1, d_message = ''OK'',
         d_result = RList [[(''input'', ''0x'' @ replicate 10 CHR ''a'' @ ''beef'')]]\<rparr> 10
      = Inr ''beef''"
proof -
  have slice: "constructor_arguments data n = Inr (drop (n + 2) inp)"
    if "d_message data = ''OK''" "d_result data = RList (t # ts)"
       "map_of t ''input'' = Some inp" for n
    using that by (simp add: constructor_arguments_def)
  have whole: "bytecode_len contract_info = length (bytecode (c_build self))
       \<and> publish_source E self contract_address w =
           submit_verification E url api_key
             (payload_verification api_key address fl contract_info
                (drop (length (bytecode (c_build self)) + 2) inp)
                (license_code (license_identifier contract_info))) w1"
    if a: "resolve_api_key E = Inr (url, api_key)"
      "resolve_address E contract_address = Inr address"
      "get_verification_info E self = Inr (contract_info, self')"
      "c_flattener self' = Some fl"
      "txlist_loop E url (params_tx api_key address) 0 w = (Inr data, w1)"
      and b: "d_message data = ''OK''" "d_result data = RList (t # ts)"
        "map_of t ''input'' = Some inp"
  proof -
    from a(3) have len: "bytecode_len contract_info = length (bytecode (c_build self))"
      using get_verification_info_Inr by blast
    from slice [OF b] len
    have "constructor_arguments data (bytecode_len contract_info)
          = Inr (drop (length (bytecode (c_build self)) + 2) inp)"
      by simp
    from publish_source_after_indexing [OF a this] len show ?thesis
      by simp
  qed
  have example: "constructor_arguments
        \<lparr>d_status = 1, d_message = ''OK'',
         d_result = RList [[(''input'', ''0x'' @ replicate 10 CHR ''a'' @ ''beef'')]]\<rparr> 10
      = Inr ''beef''"
    by (simp add: constructor_arguments_def eval_nat_numeral)
  from slice whole example payload_constructor_arguments show ?thesis
    by blast
qed

lemma txlist_loop_sample_first:
  "txlist_loop (sample_env (\<lambda>k. ok_reply 1 msg res)) url ps 0 start =
     (Inr \<lparr>d_status = 1, d_message = msg, d_result = res\<rparr>,
      \<lparr>requests = [GET url ps], slept = 0\<rparr>)"
  by (subst txlist_loop.simps) (simp add: sample_defs Let_def)

theorem constructor_arguments_suffix_witness:
  "publish_source (sample_env (\<lambda>k. ok_reply 1 ''OK'' (RList [sample_tx])))
     sample_self ''0xabc'' start =
   submit_verification (sample_env (\<lambda>k. ok_reply 1 ''OK'' (RList [sample_tx])))
     ''https://api.etherscan.io/api'' ''KEY''
     (payload_verification ''KEY'' ''0xabc'' sample_flattener
        \<lparr>standard_json_input = ''{}'', info_contract_name = ''LensHub'',
         info_compiler_version = ''0.8.10+commit.fc410830'',
         info_optimizer_enabled = True, info_optimizer_runs = 200,
         license_identifier = ''MIT'', bytecode_len = 10\<rparr>
        ''beef'' 3)
     \<lparr>requests = [GET ''https://api.etherscan.io/api'' (params_tx ''KEY'' ''0xabc'')],
      slept = 0\<rparr>"
proof -
  let ?E = "sample_env (\<lambda>k. ok_reply 1 ''OK'' (RList [sample_tx]))"
  let ?info = "\<lparr>standard_json_input = ''{}'', info_contract_name = ''LensHub'',
         info_compiler_version = ''0.8.10+commit.fc410830'',
         info_optimizer_enabled = True, info_optimizer_runs = 200,
         license_identifier = ''MIT'', bytecode_len = 10\<rparr>"
  let ?data = "\<lparr>d_status = 1, d_message = ''OK'', d_result = RList [sample_tx]\<rparr>"
  let ?w1 = "\<lparr>requests = [GET ''https://api.etherscan.io/api'' (params_tx ''KEY'' ''0xabc'')],
      slept = 0\<rparr>"
  have h: "resolve_api_key ?E = Inr (''https://api.etherscan.io/api'', ''KEY'')
       \<and> resolve_address ?E ''0xabc'' = Inr ''0xabc''
       \<and> get_verification_info ?E sample_self
           = Inr (?info, sample_self\<lparr>c_flattener := Some sample_flattener\<rparr>)
       \<and> c_flattener (sample_self\<lparr>c_flattener := Some sample_flattener\<rparr>)
           = Some sample_flattener
       \<and> txlist_loop ?E ''https://api.etherscan.io/api'' (params_tx ''KEY'' ''0xabc'') 0 start
           = (Inr ?data, ?w1)
       \<and> d_message ?data = ''OK'' \<and> d_result ?data = RList (sample_tx # [])
       \<and> map_of sample_tx ''input'' = Some (''0x'' @ replicate 10 CHR ''a'' @ ''beef'')"
    by (simp add: resolve_api_key_sample get_verification_info_sample txlist_loop_sample_first)
       (simp add: sample_env_def sample_tx_def)
  from h constructor_arguments_suffix
         [where E = ?E and url = "''https://api.etherscan.io/api''" and api_key = "''KEY''"
            and contract_address = "''0xabc''" and address = "''0xabc''"
            and self = sample_self and contract_info = ?info
            and self' = "sample_self\<lparr>c_flattener := Some sample_flattener\<rparr>"
            and fl = sample_flattener and w = start and data = ?data and ?w1.0 = ?w1
            and t = sample_tx and ts = "[]"
            and inp = "''0x'' @ replicate 10 CHR ''a'' @ ''beef''"]
  have "publish_source ?E sample_self ''0xabc'' start =
           submit_verification ?E ''https://api.etherscan.io/api'' ''KEY''
             (payload_verification ''KEY'' ''0xabc'' sample_flattener ?info
                (drop (length (bytecode (c_build sample_self)) + 2)
                   (''0x'' @ replicate 10 CHR ''a'' @ ''beef''))
                (license_code (license_identifier ?info))) ?w1"
    by blast
  then show ?thesis
    by (simp add: sample_self_def sample_build_def license_eval eval_nat_numeral)
qed

lemma status_loop_requests:
  assumes "status_loop E url ps w = Some y"
  shows "\<exists>rest. requests (snd y) = requests w @ rest"
proof (rule status_loop.raw_induct
    [where P = "\<lambda>E url ps w y. \<exists>rest. requests (snd y) = requests w @ rest", OF _ assms])
  fix loop :: "env \<Rightarrow> string \<Rightarrow> params \<Rightarrow> world \<Rightarrow> ((error + bool) \<times> world) option"
  fix E url ps w y
  assume IH: "\<And>E url ps w y. loop E url ps w = Some y \<Longrightarrow>
      \<exists>rest. requests (snd y) = requests w @ rest"
  assume body: "(let resp = server E (length (requests w));
          w1 = w\<lparr>requests := requests w @ [GET url ps]\<rparr>
      in if status_code resp \<noteq> 200 then
           Some (Inl (ConnectionError (status_code resp) url (body_text resp)), w1)
         else
           (let data = body_json resp
            in if d_result data = RStr ''Pending in queue'' then
                 loop E url ps (w1\<lparr>slept := slept w1 + 10\<rparr>)
               else Some (Inr (d_message data = ''OK''), w1))) = Some y"
  show "\<exists>rest. requests (snd y) = requests w @ rest"
  proof (cases "status_code (server E (length (requests w))) = 200
          \<and> d_result (body_json (server E (length (requests w)))) = RStr ''Pending in queue''")
    case True
    with body have "loop E url ps (w\<lparr>requests := requests w @ [GET url ps],
        slept := slept w + 10\<rparr>) = Some y"
      by (simp add: Let_def)
    from IH [OF this] obtain rest
      where "requests (snd y) = (requests w @ [GET url ps]) @ rest"
      by auto
    then have "requests (snd y) = requests w @ (GET url ps # rest)"
      by simp
    then show ?thesis ..
  next
    case False
    with body have "requests (snd y) = requests w @ [GET url ps]"
      by (auto simp: Let_def split: if_splits)
    then show ?thesis ..
  qed
qed

lemma submit_verification_requests:
  assumes "submit_verification E url api_key payload w = Some (r, w')"
  shows "\<exists>rest. requests w' = requests w @ POST url payload # rest"
proof (cases "status_code (server E (length (requests w))) = 200
          \<and> d_status (body_json (server E (length (requests w)))) = 1")
  case True
  let ?w2 = "w\<lparr>requests := requests w @ [POST url payload], slept := slept w + 10\<rparr>"
  from True assms have "status_loop E url
       (params_status api_key (d_result (body_json (server E (length (requests w)))))) ?w2
     = Some (r, w')"
    by (simp add: submit_verification_def Let_def)
  from status_loop_requests [OF this] obtain rest
    where "requests w' = requests ?w2 @ rest"
    by auto
  then have "requests w' = requests w @ POST url payload # rest"
    by simp
  then show ?thesis ..
next
  case False
  with assms have "requests w' = requests w @ POST url payload # []"
    by (auto simp: submit_verification_def Let_def split: if_splits)
  then show ?thesis ..
qed

text \<open>
  Claim C9. When the response that ends the indexing loop (its status is 1) has a
  message other than "OK", the constructor arguments are the empty string, whatever the
  result holds, and the verification request is submitted with an empty
  \<open>constructorArguements\<close>: the request that follows the indexing requests in the log
  of every run that returns is the POST of the payload built with the empty string, and
  when the explorer accepts that POST the status loop starts from a log that already
  holds it. Non-empty constructor arguments only come from a response whose message is
  "OK".
\<close>

theorem constructor_arguments_empty_unless_ok:
  "(d_message data \<noteq> ''OK'' \<longrightarrow> constructor_arguments data blen = Inr [])
   \<and> (constructor_arguments data blen = Inr args \<and> args \<noteq> [] \<longrightarrow> d_message data = ''OK'')
   \<and> (resolve_api_key E = Inr (url, api_key)
       \<and> resolve_address E contract_address = Inr address
       \<and> get_verification_info E self = Inr (contract_info, self')
       \<and> c_flattener self' = Some fl
       \<and> txlist_loop E url (params_tx api_key address) 0 w = (Inr data, w1)
       \<and> d_message data \<noteq> ''OK''
    \<longrightarrow> d_status data = 1
       \<and> map_of (payload_verification api_key address fl contract_info []
                (license_code (license_identifier contract_info)))
            ''constructorArguements''
          = Some (PStr [])
       \<and> (\<forall>r w'. publish_source E self contract_address w = Some (r, w') \<longrightarrow>
             (\<exists>rest. requests w' =
                 requests w1
                 @ POST url (payload_verification api_key address fl contract_info []
                               (license_code (license_identifier contract_info)))
                 # rest))
       \<and> (status_code (server E (length (requests w1))) = 200
            \<and> d_status (body_json (server E (length (requests w1)))) = 1
           \<longrightarrow> publish_source E self contract_address w =
                 status_loop E url
                   (params_status api_key
                      (d_result (body_json (server E (length (requests w1))))))
                   (w1\<lparr>requests := requests w1
                          @ [POST url (payload_verification api_key address fl contract_info []
                                        (license_code (license_identifier contract_info)))],
                       slept := slept w1 + 10\<rparr>))
       \<and> (status_code (server E (length (requests w1))) \<noteq> 200
           \<longrightarrow> publish_source E self contract_address w =
                 Some (Inl (ConnectionError (status_code (server E (length (requests w1))))
                              url (body_text (server E (length (requests w1))))),
                       w1\<lparr>requests := requests w1
                          @ [POST url (payload_verification api_key address fl contract_info []
                                        (license_code (license_identifier contract_info)))]\<rparr>)))"
proof -
  let ?payload = "payload_verification api_key address fl contract_info []
                    (license_code (license_identifier contract_info))"
  have empty: "constructor_arguments data n = Inr []" if "d_message data \<noteq> ''OK''" for n
    using that by (simp add: constructor_arguments_def)
  have only: "d_message data = ''OK''"
    if "constructor_arguments data blen = Inr args \<and> args \<noteq> []"
    using that by (auto simp add: constructor_arguments_def split: if_splits)
  have field: "map_of ?payload ''constructorArguements'' = Some (PStr [])"
    by (rule payload_constructor_arguments)
  have whole: "d_status data = 1
       \<and> (\<forall>r w'. publish_source E self contract_address w = Some (r, w') \<longrightarrow>
             (\<exists>rest. requests w' = requests w1 @ POST url ?payload # rest))
       \<and> (status_code (server E (length (requests w1))) = 200
            \<and> d_status (body_json (server E (length (requests w1)))) = 1
           \<longrightarrow> publish_source E self contract_address w =
                 status_loop E url
                   (params_status api_key
                      (d_result (body_json (server E (length (requests w1))))))
                   (w1\<lparr>requests := requests w1 @ [POST url ?payload],
                       slept := slept w1 + 10\<rparr>))
       \<and> (status_code (server E (length (requests w1))) \<noteq> 200
           \<longrightarrow> publish_source E self contract_address w =
                 Some (Inl (ConnectionError (status_code (server E (length (requests w1))))
                              url (body_text (server E (length (requests w1))))),
                       w1\<lparr>requests := requests w1 @ [POST url ?payload]\<rparr>))"
    if a: "resolve_api_key E = Inr (url, api_key)"
      "resolve_address E contract_address = Inr address"
      "get_verification_info E self = Inr (contract_info, self')"
      "c_flattener self' = Some fl"
      "txlist_loop E url (params_tx api_key address) 0 w = (Inr data, w1)"
      and b: "d_message data \<noteq> ''OK''"
  proof -
    have ps: "publish_source E self contract_address w =
        submit_verification E url api_key ?payload w1"
      by (rule publish_source_after_indexing [OF a empty [OF b]])
    have st: "d_status data = 1"
      by (rule txlist_loop_Inr_status [OF a(5)])
    have log: "\<exists>rest. requests w' = requests w1 @ POST url ?payload # rest"
      if "publish_source E self contract_address w = Some (r, w')" for r w'
      using that submit_verification_requests [of E url api_key ?payload w1 r w']
      by (simp only: ps)
    have acc: "publish_source E self contract_address w =
                 status_loop E url
                   (params_status api_key
                      (d_result (body_json (server E (length (requests w1))))))
                   (w1\<lparr>requests := requests w1 @ [POST url ?payload],
                       slept := slept w1 + 10\<rparr>)"
      if "status_code (server E (length (requests w1))) = 200
            \<and> d_status (body_json (server E (length (requests w1)))) = 1"
      using that by (simp add: ps submit_verification_def Let_def)
    have rej: "publish_source E self contract_address w =
                 Some (Inl (ConnectionError (status_code (server E (length (requests w1))))
                              url (body_text (server E (length (requests w1))))),
                       w1\<lparr>requests := requests w1 @ [POST url ?payload]\<rparr>)"
      if "status_code (server E (length (requests w1))) \<noteq> 200"
      using that by (simp add: ps submit_verification_def Let_def)
    from st log acc rej show ?thesis
      by blast
  qed
  from empty only field whole show ?thesis
    by blast
qed

theorem constructor_arguments_empty_unless_ok_witness:
  "publish_source
     (sample_env (\<lambda>k. if k = 0 then ok_reply 1 ''OK-Missing/Invalid API Key'' (RList [sample_tx])
                      else if k = 1 then ok_reply 1 ''OK'' (RStr ''guid-1'')
                      else ok_reply 1 ''OK'' (RStr ''Pass - Verified'')))
     sample_self ''0x52908400098527886E0F7030069857D2E4169EE7'' start
   = Some (Inr True,
       \<lparr>requests =
          [GET ''https://api.etherscan.io/api''
             (params_tx ''KEY'' ''0x52908400098527886E0F7030069857D2E4169EE7''),
           POST ''https://api.etherscan.io/api''
             [(''apikey'', PStr ''KEY''),
              (''module'', PStr ''contract''),
              (''action'', PStr ''verifysourcecode''),
              (''contractaddress'', PStr ''0x52908400098527886E0F7030069857D2E4169EE7''),
              (''sourceCode'', PStr ''{}''),
              (''codeformat'', PStr ''solidity-standard-json-input''),
              (''contractname'', PStr ''LensHub.sol:LensHub''),
              (''compilerversion'', PStr ''v0.8.10+commit.fc410830''),
              (''optimizationUsed'', PInt 1),
              (''runs'', PInt 200),
              (''constructorArguements'', PStr []),
              (''licenseType'', PInt 3)],
           GET ''https://api.etherscan.io/api'' (params_status ''KEY'' (RStr ''guid-1''))],
        slept = 10\<rparr>)"
proof -
  let ?srv = "\<lambda>k::nat. if k = 0 then ok_reply 1 ''OK-Missing/Invalid API Key'' (RList [sample_tx])
                      else if k = 1 then ok_reply 1 ''OK'' (RStr ''guid-1'')
                      else ok_reply 1 ''OK'' (RStr ''Pass - Verified'')"
  let ?E = "sample_env ?srv"
  let ?url = "''https://api.etherscan.io/api''"
  let ?a = "''0x52908400098527886E0F7030069857D2E4169EE7''"
  let ?info = "\<lparr>standard_json_input = ''{}'', info_contract_name = ''LensHub'',
         info_compiler_version = ''0.8.10+commit.fc410830'',
         info_optimizer_enabled = True, info_optimizer_runs = 200,
         license_identifier = ''MIT'', bytecode_len = 10\<rparr>"
  let ?data = "\<lparr>d_status = 1, d_message = ''OK-Missing/Invalid API Key'',
                d_result = RList [sample_tx]\<rparr>"
  let ?w1 = "\<lparr>requests = [GET ?url (params_tx ''KEY'' ?a)], slept = 0\<rparr>"
  let ?payload = "payload_verification ''KEY'' ?a sample_flattener ?info []
                    (license_code (license_identifier ?info))"
  let ?w2 = "?w1\<lparr>requests := requests ?w1 @ [POST ?url ?payload], slept := slept ?w1 + 10\<rparr>"
  have idx: "txlist_loop ?E ?url (params_tx ''KEY'' ?a) 0 start = (Inr ?data, ?w1)"
    by (subst txlist_loop.simps) (simp add: sample_defs Let_def)
  have h: "resolve_api_key ?E = Inr (?url, ''KEY'')
       \<and> resolve_address ?E ?a = Inr ?a
       \<and> get_verification_info ?E sample_self
           = Inr (?info, sample_self\<lparr>c_flattener := Some sample_flattener\<rparr>)
       \<and> c_flattener (sample_self\<lparr>c_flattener := Some sample_flattener\<rparr>)
           = Some sample_flattener
       \<and> d_message ?data \<noteq> ''OK''"
    by (simp add: resolve_api_key_sample get_verification_info_sample)
       (simp add: sample_env_def)
  have srv: "status_code (server ?E (length (requests ?w1))) = 200
            \<and> d_status (body_json (server ?E (length (requests ?w1)))) = 1"
    by (simp add: sample_env_def ok_reply_def)
  from h idx srv constructor_arguments_empty_unless_ok
         [where E = ?E and url = ?url and api_key = "''KEY''"
            and contract_address = ?a and address = ?a
            and self = sample_self and contract_info = ?info
            and self' = "sample_self\<lparr>c_flattener := Some sample_flattener\<rparr>"
            and fl = sample_flattener and w = start and data = ?data and ?w1.0 = ?w1]
  have run: "publish_source ?E sample_self ?a start =
      status_loop ?E ?url
        (params_status ''KEY'' (d_result (body_json (server ?E (length (requests ?w1)))))) ?w2"
    by blast
  have guid: "d_result (body_json (server ?E (length (requests ?w1)))) = RStr ''guid-1''"
    by (simp add: sample_env_def ok_reply_def)
  have fin: "status_code (server ?E (length (requests ?w2) + 0)) = 200"
    "d_result (body_json (server ?E (length (requests ?w2) + 0))) \<noteq> RStr ''Pending in queue''"
    by (simp_all add: sample_env_def ok_reply_def)
  have "status_loop ?E ?url (params_status ''KEY'' (RStr ''guid-1'')) ?w2 =
     Some (Inr (d_message (body_json (server ?E (length (requests ?w2) + 0))) = ''OK''),
           ?w2\<lparr>requests := requests ?w2
                   @ replicate (Suc 0) (GET ?url (params_status ''KEY'' (RStr ''guid-1''))),
             slept := slept ?w2 + 10 * 0\<rparr>)"
    by (rule status_loop_terminal [OF _ fin]) simp
  with run guid show ?thesis
    by (simp add: sample_env_def ok_reply_def payload_verification_def sample_flattener_def
          license_eval)
qed

lemma submit_verification_accepted:
  "status_code (server E (length (requests w))) = 200 \<Longrightarrow>
   d_status (body_json (server E (length (requests w)))) = 1 \<Longrightarrow>
   submit_verification E url api_key payload w =
     status_loop E url
       (params_status api_key (d_result (body_json (server E (length (requests w))))))
       (w\<lparr>requests := requests w @ [POST url payload], slept := slept w + 10\<rparr>)"
  by (simp add: submit_verification_def Let_def)

text \<open>
  Claim C6. The status loop goes round again, after a sleep of 10 seconds, exactly when
  the response's result is the string "Pending in queue": after \<open>n\<close> such responses
  (HTTP 200) and one response with any other result it has issued \<open>n + 1\<close> requests,
  slept \<open>10 * n\<close> seconds and returns whether that last response's message is exactly
  "OK"; when every response is pending it never returns. For \<open>publish_source\<close> as a
  whole: once the verification request is accepted, its return value is True if and only
  if the message of the first non-pending status response equals "OK".
\<close>

theorem status_loop_pending_then_terminal:
  "((\<forall>k<n. status_code (server E (length (requests w) + k)) = 200
           \<and> d_result (body_json (server E (length (requests w) + k)))
               = RStr ''Pending in queue'')
     \<and> status_code (server E (length (requests w) + n)) = 200
     \<and> d_result (body_json (server E (length (requests w) + n))) \<noteq> RStr ''Pending in queue''
    \<longrightarrow> status_loop E url ps w =
          Some (Inr (d_message (body_json (server E (length (requests w) + n))) = ''OK''),
                w\<lparr>requests := requests w @ replicate (Suc n) (GET url ps),
                  slept := slept w + 10 * n\<rparr>))
   \<and> ((\<forall>k. status_code (server E k) = 200
           \<and> d_result (body_json (server E k)) = RStr ''Pending in queue'')
    \<longrightarrow> status_loop E url ps w = None)
   \<and> (resolve_api_key E = Inr (url, api_key)
       \<and> resolve_address E contract_address = Inr address
       \<and> get_verification_info E self = Inr (contract_info, self')
       \<and> c_flattener self' = Some fl
       \<and> txlist_loop E url (params_tx api_key address) 0 w = (Inr data, w1)
       \<and> constructor_arguments data (bytecode_len contract_info) = Inr constructor_args
       \<and> status_code (server E (length (requests w1))) = 200
       \<and> d_status (body_json (server E (length (requests w1)))) = 1
       \<and> (\<forall>k<n. status_code (server E (length (requests w1) + 1 + k)) = 200
              \<and> d_result (body_json (server E (length (requests w1) + 1 + k)))
                  = RStr ''Pending in queue'')
       \<and> status_code (server E (length (requests w1) + 1 + n)) = 200
       \<and> d_result (body_json (server E (length (requests w1) + 1 + n)))
           \<noteq> RStr ''Pending in queue''
    \<longrightarrow> publish_source E self contract_address w =
          Some (Inr (d_message (body_json (server E (length (requests w1) + 1 + n))) = ''OK''),
                w1\<lparr>requests := requests w1
                      @ POST url (payload_verification api_key address fl contract_info
                                   constructor_args
                                   (license_code (license_identifier contract_info)))
                      # replicate (Suc n)
                          (GET url (params_status api_key
                             (d_result (body_json (server E (length (requests w1))))))),
                   slept := slept w1 + 10 + 10 * n\<rparr>))"
proof -
  have whole: "publish_source E self contract_address w =
          Some (Inr (d_message (body_json (server E (length (requests w1) + 1 + n))) = ''OK''),
                w1\<lparr>requests := requests w1
                      @ POST url (payload_verification api_key address fl contract_info
                                   constructor_args
                                   (license_code (license_identifier contract_info)))
                      # replicate (Suc n)
                          (GET url (params_status api_key
                             (d_result (body_json (server E (length (requests w1))))))),
                   slept := slept w1 + 10 + 10 * n\<rparr>)"
    if a: "resolve_api_key E = Inr (url, api_key)"
      "resolve_address E contract_address = Inr address"
      "get_verification_info E self = Inr (contract_info, self')"
      "c_flattener self' = Some fl"
      "txlist_loop E url (params_tx api_key address) 0 w = (Inr data, w1)"
      "constructor_arguments data (bytecode_len contract_info) = Inr constructor_args"
      and c: "status_code (server E (length (requests w1))) = 200"
      "d_status (body_json (server E (length (requests w1)))) = 1"
      and d: "\<forall>k<n. status_code (server E (length (requests w1) + 1 + k)) = 200
              \<and> d_result (body_json (server E (length (requests w1) + 1 + k)))
                  = RStr ''Pending in queue''"
      "status_code (server E (length (requests w1) + 1 + n)) = 200"
      "d_result (body_json (server E (length (requests w1) + 1 + n)))
           \<noteq> RStr ''Pending in queue''"
  proof -
    let ?payload = "payload_verification api_key address fl contract_info constructor_args
          (license_code (license_identifier contract_info))"
    let ?w2 = "w1\<lparr>requests := requests w1 @ [POST url ?payload], slept := slept w1 + 10\<rparr>"
    let ?ps = "params_status api_key (d_result (body_json (server E (length (requests w1)))))"
    have "publish_source E self contract_address w = status_loop E url ?ps ?w2"
      using publish_source_after_indexing [OF a] submit_verification_accepted [OF c]
      by simp
    moreover have "status_loop E url ?ps ?w2 =
          Some (Inr (d_message (body_json (server E (length (requests ?w2) + n))) = ''OK''),
                ?w2\<lparr>requests := requests ?w2 @ replicate (Suc n) (GET url ?ps),
                  slept := slept ?w2 + 10 * n\<rparr>)"
      using status_loop_terminal [of n E ?w2 url ?ps] d by simp
    ultimately show ?thesis
      by simp
  qed
  from status_loop_terminal [of n E w url ps] status_loop_diverges [of E url ps w] whole
  show ?thesis
    by blast
qed

lemma resolve_address_sample: "resolve_address (sample_env srv) a = Inr a"
  by (simp add: sample_env_def)

theorem status_loop_pending_then_terminal_witness:
  "publish_source
     (sample_env (\<lambda>k. if k = 0 then ok_reply 1 ''OK'' (RList [sample_tx])
                      else if k = 1 then ok_reply 1 ''OK'' (RStr ''guid-1'')
                      else if k < 4 then ok_reply 0 ''NOTOK'' (RStr ''Pending in queue'')
                      else ok_reply 1 ''OK'' (RStr ''Pass - Verified'')))
     sample_self ''0xabc'' start
   = Some (Inr True,
       \<lparr>requests =
          [GET ''https://api.etherscan.io/api'' (params_tx ''KEY'' ''0xabc''),
           POST ''https://api.etherscan.io/api''
             (payload_verification ''KEY'' ''0xabc'' sample_flattener
               \<lparr>standard_json_input = ''{}'', info_contract_name = ''LensHub'',
                info_compiler_version = ''0.8.10+commit.fc410830'',
                info_optimizer_enabled = True, info_optimizer_runs = 200,
                license_identifier = ''MIT'', bytecode_len = 10\<rparr>
               ''beef'' 3)]
          @ replicate 3 (GET ''https://api.etherscan.io/api''
                           (params_status ''KEY'' (RStr ''guid-1''))),
        slept = 30\<rparr>)"
proof -
  let ?srv = "\<lambda>k::nat. if k = 0 then ok_reply 1 ''OK'' (RList [sample_tx])
                      else if k = 1 then ok_reply 1 ''OK'' (RStr ''guid-1'')
                      else if k < 4 then ok_reply 0 ''NOTOK'' (RStr ''Pending in queue'')
                      else ok_reply 1 ''OK'' (RStr ''Pass - Verified'')"
  let ?E = "sample_env ?srv"
  let ?info = "\<lparr>standard_json_input = ''{}'', info_contract_name = ''LensHub'',
         info_compiler_version = ''0.8.10+commit.fc410830'',
         info_optimizer_enabled = True, info_optimizer_runs = 200,
         license_identifier = ''MIT'', bytecode_len = 10\<rparr>"
  let ?url = "''https://api.etherscan.io/api''"
  let ?data = "\<lparr>d_status = 1, d_message = ''OK'', d_result = RList [sample_tx]\<rparr>"
  let ?w1 = "\<lparr>requests = [GET ?url (params_tx ''KEY'' ''0xabc'')], slept = 0\<rparr>"
  have idx: "txlist_loop ?E ?url (params_tx ''KEY'' ''0xabc'') 0 start = (Inr ?data, ?w1)"
    by (subst txlist_loop.simps) (simp add: sample_defs Let_def)
  have cargs: "constructor_arguments ?data (bytecode_len ?info) = Inr ''beef''"
    by (simp add: constructor_arguments_def sample_tx_def eval_nat_numeral)
  have srv: "status_code (server ?E (length (requests ?w1))) = 200
       \<and> d_status (body_json (server ?E (length (requests ?w1)))) = 1
       \<and> (\<forall>k<2. status_code (server ?E (length (requests ?w1) + 1 + k)) = 200
              \<and> d_result (body_json (server ?E (length (requests ?w1) + 1 + k)))
                  = RStr ''Pending in queue'')
       \<and> status_code (server ?E (length (requests ?w1) + 1 + 2)) = 200
       \<and> d_result (body_json (server ?E (length (requests ?w1) + 1 + 2)))
           \<noteq> RStr ''Pending in queue''"
    by (simp add: sample_env_def ok_reply_def)
  have h: "resolve_api_key ?E = Inr (?url, ''KEY'')
       \<and> resolve_address ?E ''0xabc'' = Inr ''0xabc''
       \<and> get_verification_info ?E sample_self
           = Inr (?info, sample_self\<lparr>c_flattener := Some sample_flattener\<rparr>)
       \<and> c_flattener (sample_self\<lparr>c_flattener := Some sample_flattener\<rparr>)
           = Some sample_flattener"
    by (simp add: resolve_api_key_sample get_verification_info_sample resolve_address_sample)
  from h idx cargs srv status_loop_pending_then_terminal
         [where E = ?E and url = ?url and api_key = "''KEY''"
            and contract_address = "''0xabc''" and address = "''0xabc''"
            and self = sample_self and contract_info = ?info
            and self' = "sample_self\<lparr>c_flattener := Some sample_flattener\<rparr>"
            and fl = sample_flattener and w = start and data = ?data and ?w1.0 = ?w1
            and constructor_args = "''beef''" and n = 2]
  have "publish_source ?E sample_self ''0xabc'' start =
          Some (Inr (d_message (body_json (server ?E (length (requests ?w1) + 1 + 2))) = ''OK''),
                ?w1\<lparr>requests := requests ?w1
                      @ POST ?url (payload_verification ''KEY'' ''0xabc'' sample_flattener ?info
                                   ''beef'' (license_code (license_identifier ?info)))
                      # replicate (Suc 2)
                          (GET ?url (params_status ''KEY''
                             (d_result (body_json (server ?E (length (requests ?w1))))))),
                   slept := slept ?w1 + 10 + 10 * 2\<rparr>)"
    by blast
  then show ?thesis
    by (simp add: sample_env_def ok_reply_def license_eval eval_nat_numeral)
qed

text \<open>
  Claim C7. A build whose language is not "Solidity" makes \<open>get_verification_info\<close>
  raise a TypeError (for "Vyper" the one that says Etherscan cannot verify vyper
  contracts through the API, otherwise "Unsupported language for source verification").
  In \<open>publish_source\<close> this error is the outcome of the call once the credentials are
  resolved: no HTTP request has been issued, nothing has slept, and nothing is tried again.
\<close>

theorem get_verification_info_unsupported_language:
  "language (c_build self) \<noteq> ''Solidity'' \<longrightarrow>
     (\<exists>msg. get_verification_info E self = Inl (TypeError msg)
        \<and> (language (c_build self) = ''Vyper'' \<longrightarrow>
             msg = ''Etherscan does not support API verification of source code ''
                   @ ''for vyper contracts. You need to verify the source manually'')
        \<and> (language (c_build self) \<noteq> ''Vyper'' \<longrightarrow>
             msg = ''Unsupported language for source verification: ''
                   @ language (c_build self))
        \<and> (resolve_api_key E = Inr (url, api_key)
             \<and> resolve_address E contract_address = Inr address
            \<longrightarrow> publish_source E self contract_address w = Some (Inl (TypeError msg), w)))"
  by (simp add: get_verification_info_def publish_source_def Let_def)

theorem get_verification_info_unsupported_language_witness:
  "publish_source (sample_env (\<lambda>k. ok_reply 1 ''OK'' (RList [sample_tx])))
     \<lparr>c_build = sample_build\<lparr>language := ''Vyper''\<rparr>, c_flattener = None\<rparr> ''0xabc'' start
   = Some (Inl (TypeError (''Etherscan does not support API verification of source code ''
                   @ ''for vyper contracts. You need to verify the source manually'')), start)
   \<and> publish_source (sample_env (\<lambda>k. ok_reply 1 ''OK'' (RList [sample_tx])))
     \<lparr>c_build = sample_build\<lparr>language := ''Yul''\<rparr>, c_flattener = None\<rparr> ''0xabc'' start
   = Some (Inl (TypeError ''Unsupported language for source verification: Yul''), start)"
proof -
  let ?E = "sample_env (\<lambda>k. ok_reply 1 ''OK'' (RList [sample_tx]))"
  let ?V = "\<lparr>c_build = sample_build\<lparr>language := ''Vyper''\<rparr>, c_flattener = None\<rparr>"
  let ?Y = "\<lparr>c_build = sample_build\<lparr>language := ''Yul''\<rparr>, c_flattener = None\<rparr>"
  have cred: "resolve_api_key ?E = Inr (''https://api.etherscan.io/api'', ''KEY'')
      \<and> resolve_address ?E ''0xabc'' = Inr ''0xabc''"
    by (simp add: resolve_api_key_sample resolve_address_sample)
  have v: "language (c_build ?V) \<noteq> ''Solidity'' \<and> language (c_build ?V) = ''Vyper''"
    by simp
  have y: "language (c_build ?Y) \<noteq> ''Solidity'' \<and> language (c_build ?Y) \<noteq> ''Vyper''
      \<and> language (c_build ?Y) = ''Yul''"
    by simp
  from v cred get_verification_info_unsupported_language
         [where self = ?V and E = ?E and url = "''https://api.etherscan.io/api''"
            and api_key = "''KEY''" and contract_address = "''0xabc''"
            and address = "''0xabc''" and w = start]
  have a: "publish_source ?E ?V ''0xabc'' start
      = Some (Inl (TypeError (''Etherscan does not support API verification of source code ''
                   @ ''for vyper contracts. You need to verify the source manually'')), start)"
    by blast
  from y cred get_verification_info_unsupported_language
         [where self = ?Y and E = ?E and url = "''https://api.etherscan.io/api''"
            and api_key = "''KEY''" and contract_address = "''0xabc''"
            and address = "''0xabc''" and w = start]
  have b: "publish_source ?E ?Y ''0xabc'' start
      = Some (Inl (TypeError ''Unsupported language for source verification: Yul''), start)"
    by auto
  from a b show ?thesis by blast
qed

text \<open>
  The credential check when the API key is missing: if the host of the explorer URL has
  a dot, the ValueError raised names the expected environment variable at the end of its
  message; if the host has no dot, \<open>host.index(".")\<close> raises "substring not found" while
  the message is being built. Either way no HTTP request has been issued.
\<close>

lemma publish_source_missing_api_key:
  "explorer E = Some url \<Longrightarrow>
   map snd (filter (\<lambda>kv. contains (fst kv) url) (explorer_tokens E)) = env_token # rest \<Longrightarrow>
   getenv E env_token = None \<Longrightarrow>
   publish_source E self contract_address w =
     (case str_index (netloc E url) ''.'' of
        None \<Rightarrow> Some (Inl (ValueError ''substring not found''), w)
      | Some i \<Rightarrow>
          Some (Inl (ValueError
                  (''An API token is required to verify contract source code. ''
                   @ ''Visit https://'' @ drop (i + 1) (netloc E url) @ ''/ ''
                   @ ''to obtain a token, and then store it as ''
                   @ ''the environment variable $'' @ env_token)), w))"
  by (simp add: publish_source_def resolve_api_key_def Let_def split: option.splits)

text \<open>
  Claim C8, evaluated where the code departs from it. The explorer URL
  \<open>http://localhost:8080/etherscan/api\<close> holds the fragment "etherscan", so the token
  name is ETHERSCAN_TOKEN; that variable is unset; the host "localhost:8080" has no dot.
  \<open>publish_source\<close> raises ValueError "substring not found" before any HTTP request,
  and this message does not name ETHERSCAN_TOKEN. With the host "api.etherscan.io" the
  same missing variable gives the message that ends in "$ETHERSCAN_TOKEN".
\<close>

theorem publish_source_missing_api_key_dotless_host:
  "contains ''etherscan'' ''http://localhost:8080/etherscan/api''
   \<and> getenv proxy_env ''ETHERSCAN_TOKEN'' = None
   \<and> publish_source proxy_env sample_self ''0xabc'' start
       = Some (Inl (ValueError ''substring not found''), start)
   \<and> \<not> contains ''ETHERSCAN_TOKEN'' ''substring not found''
   \<and> publish_source (proxy_env\<lparr>netloc := (\<lambda>url. ''api.etherscan.io'')\<rparr>)
         sample_self ''0xabc'' start
       = Some (Inl (ValueError
                 (''An API token is required to verify contract source code. ''
                  @ ''Visit https://etherscan.io/ ''
                  @ ''to obtain a token, and then store it as ''
                  @ ''the environment variable $ETHERSCAN_TOKEN'')), start)"
  by (simp add: publish_source_def resolve_api_key_def getenv_def proxy_env_def
        sample_env_def Let_def)

section \<open>Properties of the bytecode patching\<close>

lemma contains_sublist: "contains t s = sublist t s"
  by (induction s) (auto simp: sublist_Cons_right)

lemma contains_append_right: "contains t ys \<Longrightarrow> contains t (xs @ ys)"
  by (induction xs) auto

lemma contains_drop: "contains t (drop n s) \<Longrightarrow> contains t s"
  using contains_append_right [of t "drop n s" "take n s"] by simp

lemma contains_behind:
  "t \<noteq> [] \<Longrightarrow> hd t \<notin> set new \<Longrightarrow> contains t (new @ rest) \<Longrightarrow> contains t rest"
proof (induction new)
  case Nil
  then show ?case by simp
next
  case (Cons a new)
  from Cons.prems(1,2) have "\<not> prefix t (a # new @ rest)"
    by (cases t) auto
  with Cons show ?case by simp
qed

lemma prefix_replace:
  "old \<noteq> [] \<Longrightarrow> u \<noteq> [] \<Longrightarrow> last u \<notin> set new \<Longrightarrow> length u \<le> length new \<Longrightarrow>
   prefix u (replace s old new) \<Longrightarrow> prefix u s"
proof (induction s old new arbitrary: u rule: replace.induct)
  case (1 old new)
  then show ?case by simp
next
  case (2 c cs old new)
  show ?case
  proof (cases "prefix old (c # cs)")
    case True
    with 2 have p: "prefix u (new @ replace (drop (length old) (c # cs)) old new)"
      by simp
    then have "prefix u new \<or> prefix new u"
      by (meson prefix_append prefix_same_cases prefixI)
    then show ?thesis
    proof
      assume "prefix u new"
      then have "set u \<subseteq> set new" by (rule set_mono_prefix)
      with "2.prems"(2,3) show ?thesis
        using last_in_set by blast
    next
      assume n: "prefix new u"
      with "2.prems"(4) have "u = new"
        by (metis prefix_length_le le_antisym prefix_order.eq_iff prefix_length_prefix
            order_refl)
      with "2.prems"(2,3) show ?thesis
        using last_in_set by blast
    qed
  next
    case False
    with 2 have p: "prefix u (c # replace cs old new)"
      by simp
    from "2.prems"(2) obtain u0 us where u: "u = u0 # us"
      by (cases u) auto
    with p have c: "u0 = c" and ps: "prefix us (replace cs old new)"
      by simp_all
    show ?thesis
    proof (cases "us = []")
      case True
      with u c show ?thesis by simp
    next
      case ne: False
      with u "2.prems" have "last us \<notin> set new" "length us \<le> length new"
        by simp_all
      with "2.IH"(3) [OF "2.prems"(1) False "2.prems"(1) ne _ _ ps] have "prefix us cs"
        by blast
      with u c show ?thesis by simp
    qed
  qed
qed

lemma prefix_Cons_replace:
  assumes old: "old \<noteq> []"
    and t: "t \<noteq> []" "last t \<notin> set new" "length t \<le> Suc (length new)"
    and p: "prefix t (c # replace cs old new)"
  shows "prefix t (c # cs)"
proof -
  from t(1) obtain t0 ts where ts: "t = t0 # ts"
    by (cases t) auto
  with p have c: "t0 = c" and ps: "prefix ts (replace cs old new)"
    by simp_all
  show ?thesis
  proof (cases "ts = []")
    case True
    with ts c show ?thesis by simp
  next
    case False
    with ts t have "last ts \<notin> set new" "length ts \<le> length new"
      by simp_all
    with prefix_replace [OF old False _ _ ps] have "prefix ts cs"
      by blast
    with ts c show ?thesis by simp
  qed
qed

lemma contains_replace_other:
  "old \<noteq> [] \<Longrightarrow> t \<noteq> [] \<Longrightarrow> hd t \<notin> set new \<Longrightarrow> last t \<notin> set new \<Longrightarrow>
   length t \<le> Suc (length new) \<Longrightarrow>
   contains t (replace s old new) \<Longrightarrow> contains t s"
proof (induction s old new rule: replace.induct)
  case (1 old new)
  then show ?case by simp
next
  case (2 c cs old new)
  show ?case
  proof (cases "prefix old (c # cs)")
    case True
    with "2.prems" have "contains t (new @ replace (drop (length old) (c # cs)) old new)"
      by simp
    with "2.prems" have "contains t (replace (drop (length old) (c # cs)) old new)"
      using contains_behind by blast
    with "2.IH"(2) [OF "2.prems"(1) True] "2.prems"
    have "contains t (drop (length old) (c # cs))"
      by blast
    then show ?thesis by (rule contains_drop)
  next
    case False
    with "2.prems" have "prefix t (c # replace cs old new) \<or> contains t (replace cs old new)"
      by simp
    then show ?thesis
    proof
      assume "prefix t (c # replace cs old new)"
      with "2.prems" have "prefix t (c # cs)"
        using prefix_Cons_replace by blast
      then show ?thesis by simp
    next
      assume "contains t (replace cs old new)"
      with "2.IH"(3) [OF "2.prems"(1) False] "2.prems" have "contains t cs"
        by blast
      then show ?thesis by simp
    qed
  qed
qed

lemma not_contains_replace_same:
  "old \<noteq> [] \<Longrightarrow> hd old \<notin> set new \<Longrightarrow> last old \<notin> set new \<Longrightarrow>
   length old \<le> Suc (length new) \<Longrightarrow> \<not> contains old (replace s old new)"
proof (induction s old new rule: replace.induct)
  case (1 old new)
  then show ?case by simp
next
  case (2 c cs old new)
  show ?case
  proof (cases "prefix old (c # cs)")
    case True
    from "2.IH"(2) [OF "2.prems"(1) True] "2.prems"
    have "\<not> contains old (replace (drop (length old) (c # cs)) old new)"
      by blast
    with "2.prems" have "\<not> contains old (new @ replace (drop (length old) (c # cs)) old new)"
      using contains_behind by blast
    with True "2.prems"(1) show ?thesis by simp
  next
    case False
    from "2.IH"(3) [OF "2.prems"(1) False] "2.prems"
    have rest: "\<not> contains old (replace cs old new)"
      by blast
    have "\<not> prefix old (c # replace cs old new)"
    proof
      assume "prefix old (c # replace cs old new)"
      with "2.prems" have "prefix old (c # cs)"
        using prefix_Cons_replace by blast
      with False show False by simp
    qed
    with rest False "2.prems"(1) show ?thesis by simp
  qed
qed

lemma replace_absent: "\<not> contains old s \<Longrightarrow> replace s old new = s"
proof (induction s)
  case Nil
  then show ?case by simp
next
  case (Cons c cs)
  then show ?case by auto
qed

lemma contains_char: "contains t s \<Longrightarrow> set t \<subseteq> set s"
  by (auto simp: contains_sublist dest: set_mono_sublist)

lemma lower_char_hex:
  assumes "c \<in> set ''0123456789abcdefABCDEF''"
  shows "lower_char c \<in> set ''0123456789abcdef''"
proof -
  from assms have "c = CHR ''0'' \<or> c = CHR ''1'' \<or> c = CHR ''2'' \<or> c = CHR ''3''
      \<or> c = CHR ''4'' \<or> c = CHR ''5'' \<or> c = CHR ''6'' \<or> c = CHR ''7'' \<or> c = CHR ''8''
      \<or> c = CHR ''9'' \<or> c = CHR ''a'' \<or> c = CHR ''b'' \<or> c = CHR ''c'' \<or> c = CHR ''d''
      \<or> c = CHR ''e'' \<or> c = CHR ''f'' \<or> c = CHR ''A'' \<or> c = CHR ''B'' \<or> c = CHR ''C''
      \<or> c = CHR ''D'' \<or> c = CHR ''E'' \<or> c = CHR ''F''"
    by simp
  then show ?thesis
    by (elim disjE) (simp_all add: lower_char_def)
qed


lemma is_address_stripped:
  assumes "is_address a"
  shows "lower (replace a ''0x'' []) = lower (drop 2 a)"
    and "length (lower (replace a ''0x'' [])) = 40"
    and "set (lower (replace a ''0x'' [])) \<subseteq> set ''0123456789abcdef''"
proof -
  let ?h = "drop 2 a"
  from assms have tk: "take 2 a = ''0x''" and la: "length a = 42"
    and hex: "\<forall>c\<in>set ?h. c \<in> set ''0123456789abcdefABCDEF''"
    by (simp_all add: is_address_def list_all_iff)
  from tk have a: "a = ''0x'' @ ?h"
    by (metis append_take_drop_id)
  from la have len: "length ?h = 40"
    by simp
  have "CHR ''x'' \<notin> set ?h"
  proof
    assume "CHR ''x'' \<in> set ?h"
    with hex have "CHR ''x'' \<in> set ''0123456789abcdefABCDEF''"
      by blast
    then show False by simp
  qed
  moreover have "CHR ''x'' \<in> set ''0x''"
    by simp
  ultimately have "\<not> contains ''0x'' ?h"
    using contains_char [of "''0x''" ?h] by blast
  then have h: "replace ?h ''0x'' [] = ?h"
    by (rule replace_absent)
  have "replace (''0x'' @ ?h) ''0x'' [] = replace ?h ''0x'' []"
    by simp
  with a h have r: "replace a ''0x'' [] = ?h"
    by simp
  then show "lower (replace a ''0x'' []) = lower (drop 2 a)"
    by simp
  from r len show "length (lower (replace a ''0x'' [])) = 40"
    by (simp add: lower_def)
  show "set (lower (replace a ''0x'' [])) \<subseteq> set ''0123456789abcdef''"
  proof
    fix x assume "x \<in> set (lower (replace a ''0x'' []))"
    with r obtain c where "c \<in> set ?h" "x = lower_char c"
      by (auto simp: lower_def)
    with hex show "x \<in> set ''0123456789abcdef''"
      using lower_char_hex by blast
  qed
qed

lemma replace_skip:
  "old \<noteq> [] \<Longrightarrow> hd old \<notin> set h \<Longrightarrow> replace (h @ rest) old new = h @ replace rest old new"
proof (induction h)
  case Nil
  then show ?case by simp
next
  case (Cons c h)
  from Cons.prems have "\<not> prefix old (c # h @ rest)"
    by (cases old) auto
  with Cons show ?case by simp
qed

lemma replace_at:
  "old \<noteq> [] \<Longrightarrow> replace (old @ rest) old new = new @ replace rest old new"
  by (cases old) simp_all

lemma prefix_Cons_first: "\<not> prefix [c] rest \<Longrightarrow> prefix (c # xs) rest = False"
  by (cases rest) auto

lemma prefix_Cons_second:
  "\<not> prefix [c, d] rest \<Longrightarrow> prefix (c # d # xs) rest = False"
  by (cases rest; cases "tl rest") auto

lemmas token_defs = PublishingLogic_token_def InteractionLogic_token_def
  ProfileTokenURILogic_token_def

lemma replace_other_token:
  assumes "l \<noteq> k" "\<not> prefix ''$'' rest" "\<not> prefix ''_$'' rest"
  shows "replace (token l @ rest) (token k) new = token l @ replace rest (token k) new"
proof (cases l)
  case PublishingLogic
  with assms show ?thesis
    by (cases k) (simp_all add: token_defs prefix_Cons_first prefix_Cons_second)
next
  case InteractionLogic
  with assms show ?thesis
    by (cases k) (simp_all add: token_defs prefix_Cons_first prefix_Cons_second)
next
  case ProfileTokenURILogic
  with assms show ?thesis
    by (cases k) (simp_all add: token_defs prefix_Cons_first prefix_Cons_second)
qed

lemma token_shape:
  "token l \<noteq> []" "hd (token l) = CHR ''_''" "last (token l) = CHR ''_''"
  "length (token l) = 40" "prefix ''__'' (token l)"
  by (cases l; simp add: token_defs)+

lemma render_start:
  assumes code: "\<forall>h\<in>set (code_pieces ps). CHR ''_'' \<notin> set h \<and> CHR ''$'' \<notin> set h"
    and f: "\<forall>l. f l = token l \<or> (CHR ''_'' \<notin> set (f l) \<and> CHR ''$'' \<notin> set (f l))"
  shows "\<not> prefix ''$'' (render f ps) \<and> \<not> prefix ''_$'' (render f ps)"
  using code
proof (induction ps)
  case Nil
  then show ?case by simp
next
  case (Cons p ps)
  show ?case
  proof (cases p)
    case (Code h)
    with Cons show ?thesis
      by (cases h) auto
  next
    case (Placeholder l)
    from f have "f l = token l \<or> (CHR ''_'' \<notin> set (f l) \<and> CHR ''$'' \<notin> set (f l))"
      by blast
    then show ?thesis
    proof
      assume "f l = token l"
      with Placeholder show ?thesis
        by (cases l) (simp_all add: token_defs)
    next
      assume "CHR ''_'' \<notin> set (f l) \<and> CHR ''$'' \<notin> set (f l)"
      with Placeholder Cons show ?thesis
        by (cases "f l") auto
    qed
  qed
qed

lemma replace_render:
  assumes code: "\<forall>h\<in>set (code_pieces ps). CHR ''_'' \<notin> set h \<and> CHR ''$'' \<notin> set h"
    and f: "\<forall>l. f l = token l \<or> (CHR ''_'' \<notin> set (f l) \<and> CHR ''$'' \<notin> set (f l))"
    and k: "f k = token k"
  shows "replace (render f ps) (token k) new = render (f(k := new)) ps"
  using code
proof (induction ps)
  case Nil
  then show ?case by (simp add: token_shape)
next
  case (Cons p ps)
  from Cons.prems have code': "\<forall>h\<in>set (code_pieces ps). CHR ''_'' \<notin> set h \<and> CHR ''$'' \<notin> set h"
    by (cases p) simp_all
  then have IH: "replace (render f ps) (token k) new = render (f(k := new)) ps"
    by (rule Cons.IH)
  show ?case
  proof (cases p)
    case (Code h)
    with Cons.prems have "hd (token k) \<notin> set h"
      by (simp add: token_shape)
    with Code IH show ?thesis
      by (simp add: replace_skip token_shape fun_upd_def)
  next
    case (Placeholder l)
    show ?thesis
    proof (cases "l = k")
      case True
      with Placeholder k IH show ?thesis
        by (simp add: replace_at token_shape fun_upd_def)
    next
      case False
      from f have "f l = token l \<or> (CHR ''_'' \<notin> set (f l) \<and> CHR ''$'' \<notin> set (f l))"
        by blast
      then show ?thesis
      proof
        assume "f l = token l"
        with Placeholder False IH render_start [OF code' f] show ?thesis
          by (simp add: replace_other_token fun_upd_def)
      next
        assume "CHR ''_'' \<notin> set (f l) \<and> CHR ''$'' \<notin> set (f l)"
        then have "hd (token k) \<notin> set (f l)"
          by (simp add: token_shape)
        with Placeholder False IH show ?thesis
          by (simp add: replace_skip token_shape fun_upd_def)
      qed
    qed
  qed
qed

lemma stripped_plain:
  assumes "is_address a"
  shows "CHR ''_'' \<notin> set (lower (drop 2 a))" "CHR ''$'' \<notin> set (lower (drop 2 a))"
    "length (lower (drop 2 a)) = 40" "lower (replace a ''0x'' []) = lower (drop 2 a)"
proof -
  from is_address_stripped [OF assms]
  have eq: "lower (replace a ''0x'' []) = lower (drop 2 a)"
    and len: "length (lower (replace a ''0x'' [])) = 40"
    and hex: "set (lower (replace a ''0x'' [])) \<subseteq> set ''0123456789abcdef''"
    by blast+
  from eq show "lower (replace a ''0x'' []) = lower (drop 2 a)" .
  from eq len show "length (lower (drop 2 a)) = 40" by simp
  from eq hex have sub: "set (lower (drop 2 a)) \<subseteq> set ''0123456789abcdef''" by simp
  show "CHR ''_'' \<notin> set (lower (drop 2 a))"
  proof
    assume "CHR ''_'' \<in> set (lower (drop 2 a))"
    with sub have "CHR ''_'' \<in> set ''0123456789abcdef''" by blast
    then show False by simp
  qed
  show "CHR ''$'' \<notin> set (lower (drop 2 a))"
  proof
    assume "CHR ''$'' \<in> set (lower (drop 2 a))"
    with sub have "CHR ''$'' \<in> set ''0123456789abcdef''" by blast
    then show False by simp
  qed
qed

lemma token_gone:
  assumes "CHR ''_'' \<notin> set new" "length new = 40"
  shows "\<not> contains (token l) (replace s (token l) new)"
  using assms by (intro not_contains_replace_same) (simp_all add: token_shape)

lemma token_stays_absent:
  assumes "CHR ''_'' \<notin> set new" "length new = 40" "\<not> contains (token l) s"
  shows "\<not> contains (token l) (replace s (token k) new)"
proof
  assume "contains (token l) (replace s (token k) new)"
  with assms(1,2) have "contains (token l) s"
    by (intro contains_replace_other [of "token k" "token l" new s]) (simp_all add: token_shape)
  with assms(3) show False by simp
qed

lemma patch_bytecode_tokens:
  "patch_bytecode b a1 a2 a3 =
     replace (replace (replace b (token PublishingLogic) (lower (replace a1 ''0x'' [])))
                (token InteractionLogic) (lower (replace a2 ''0x'' [])))
       (token ProfileTokenURILogic) (lower (replace a3 ''0x'' []))"
  by (simp add: patch_bytecode_def Let_def)

text \<open>
  The patch as a function of the bytecode and the three addresses, the addresses well
  formed: no token is left, placeholders are replaced in place, and an absent token makes
  its step the identity.
\<close>

lemma patch_bytecode_replaces_tokens:
  "is_address a1 \<and> is_address a2 \<and> is_address a3 \<longrightarrow>
     (\<forall>l. \<not> contains (token l) (patch_bytecode b a1 a2 a3))
   \<and> ((\<forall>h\<in>set (code_pieces ps). CHR ''_'' \<notin> set h \<and> CHR ''$'' \<notin> set h)
      \<longrightarrow> patch_bytecode (render token ps) a1 a2 a3 = render (linked a1 a2 a3) ps)
   \<and> (\<not> contains PublishingLogic_token b
      \<longrightarrow> patch_bytecode b a1 a2 a3 =
            replace (replace b InteractionLogic_token (lower (drop 2 a2)))
              ProfileTokenURILogic_token (lower (drop 2 a3)))
   \<and> (\<not> contains InteractionLogic_token b
      \<longrightarrow> patch_bytecode b a1 a2 a3 =
            replace (replace b PublishingLogic_token (lower (drop 2 a1)))
              ProfileTokenURILogic_token (lower (drop 2 a3)))
   \<and> (\<not> contains ProfileTokenURILogic_token b
      \<longrightarrow> patch_bytecode b a1 a2 a3 =
            replace (replace b PublishingLogic_token (lower (drop 2 a1)))
              InteractionLogic_token (lower (drop 2 a2)))
   \<and> ((\<forall>l. \<not> contains (token l) b) \<longrightarrow> patch_bytecode b a1 a2 a3 = b)"
proof
  assume addrs: "is_address a1 \<and> is_address a2 \<and> is_address a3"
  let ?R1 = "lower (drop 2 a1)" and ?R2 = "lower (drop 2 a2)" and ?R3 = "lower (drop 2 a3)"
  let ?T1 = "token PublishingLogic" and ?T2 = "token InteractionLogic"
    and ?T3 = "token ProfileTokenURILogic"
  from addrs have p1: "CHR ''_'' \<notin> set ?R1" "CHR ''$'' \<notin> set ?R1" "length ?R1 = 40"
    and p2: "CHR ''_'' \<notin> set ?R2" "CHR ''$'' \<notin> set ?R2" "length ?R2 = 40"
    and p3: "CHR ''_'' \<notin> set ?R3" "CHR ''$'' \<notin> set ?R3" "length ?R3 = 40"
    by (simp_all add: stripped_plain)
  from addrs have patch: "patch_bytecode s a1 a2 a3 =
      replace (replace (replace s ?T1 ?R1) ?T2 ?R2) ?T3 ?R3" for s
    by (simp add: patch_bytecode_tokens stripped_plain)

  have gone: "\<not> contains (token l) (patch_bytecode b a1 a2 a3)" for l
  proof (cases l)
    case PublishingLogic
    have "\<not> contains ?T1 (replace b ?T1 ?R1)"
      by (rule token_gone [OF p1(1) p1(3)])
    then have "\<not> contains ?T1 (replace (replace b ?T1 ?R1) ?T2 ?R2)"
      by (rule token_stays_absent [OF p2(1) p2(3)])
    then have "\<not> contains ?T1 (replace (replace (replace b ?T1 ?R1) ?T2 ?R2) ?T3 ?R3)"
      by (rule token_stays_absent [OF p3(1) p3(3)])
    then show ?thesis unfolding patch PublishingLogic .
  next
    case InteractionLogic
    have "\<not> contains ?T2 (replace (replace b ?T1 ?R1) ?T2 ?R2)"
      by (rule token_gone [OF p2(1) p2(3)])
    then have "\<not> contains ?T2 (replace (replace (replace b ?T1 ?R1) ?T2 ?R2) ?T3 ?R3)"
      by (rule token_stays_absent [OF p3(1) p3(3)])
    then show ?thesis unfolding patch InteractionLogic .
  next
    case ProfileTokenURILogic
    have "\<not> contains ?T3 (replace (replace (replace b ?T1 ?R1) ?T2 ?R2) ?T3 ?R3)"
      by (rule token_gone [OF p3(1) p3(3)])
    then show ?thesis unfolding patch ProfileTokenURILogic .
  qed

  have rendered: "patch_bytecode (render token ps) a1 a2 a3 = render (linked a1 a2 a3) ps"
    if code: "\<forall>h\<in>set (code_pieces ps). CHR ''_'' \<notin> set h \<and> CHR ''$'' \<notin> set h"
  proof -
    let ?f1 = "token(PublishingLogic := ?R1)"
    let ?f2 = "?f1(InteractionLogic := ?R2)"
    let ?f3 = "?f2(ProfileTokenURILogic := ?R3)"
    have s1: "replace (render token ps) ?T1 ?R1 = render ?f1 ps"
      using code by (intro replace_render) simp_all
    have s2: "replace (render ?f1 ps) ?T2 ?R2 = render ?f2 ps"
      using code p1 by (intro replace_render) simp_all
    have s3: "replace (render ?f2 ps) ?T3 ?R3 = render ?f3 ps"
      using code p1 p2 by (intro replace_render) simp_all
    have "?f3 = linked a1 a2 a3"
    proof
      fix l show "?f3 l = linked a1 a2 a3 l"
        by (cases l) (simp_all add: linked_def)
    qed
    then show ?thesis
      unfolding patch s1 s2 s3 by (rule arg_cong)
  qed

  have no1: "patch_bytecode b a1 a2 a3 = replace (replace b ?T2 ?R2) ?T3 ?R3"
    if "\<not> contains ?T1 b"
    unfolding patch replace_absent [OF that] ..
  have no2: "patch_bytecode b a1 a2 a3 = replace (replace b ?T1 ?R1) ?T3 ?R3"
    if "\<not> contains ?T2 b"
  proof -
    from that have "\<not> contains ?T2 (replace b ?T1 ?R1)"
      by (rule token_stays_absent [OF p1(1) p1(3)])
    then show ?thesis
      unfolding patch by (simp add: replace_absent)
  qed
  have no3: "patch_bytecode b a1 a2 a3 = replace (replace b ?T1 ?R1) ?T2 ?R2"
    if "\<not> contains ?T3 b"
  proof -
    from that have "\<not> contains ?T3 (replace b ?T1 ?R1)"
      by (rule token_stays_absent [OF p1(1) p1(3)])
    then have "\<not> contains ?T3 (replace (replace b ?T1 ?R1) ?T2 ?R2)"
      by (rule token_stays_absent [OF p2(1) p2(3)])
    then show ?thesis
      unfolding patch by (simp add: replace_absent)
  qed
  have none: "patch_bytecode b a1 a2 a3 = b" if a: "\<forall>l. \<not> contains (token l) b"
  proof -
    from a have "\<not> contains ?T1 b" "\<not> contains ?T2 b" "\<not> contains ?T3 b"
      by blast+
    then show ?thesis
      unfolding patch by (simp add: replace_absent)
  qed
  from gone rendered no1 no2 no3 none
  show "(\<forall>l. \<not> contains (token l) (patch_bytecode b a1 a2 a3))
   \<and> ((\<forall>h\<in>set (code_pieces ps). CHR ''_'' \<notin> set h \<and> CHR ''$'' \<notin> set h)
      \<longrightarrow> patch_bytecode (render token ps) a1 a2 a3 = render (linked a1 a2 a3) ps)
   \<and> (\<not> contains PublishingLogic_token b
      \<longrightarrow> patch_bytecode b a1 a2 a3 =
            replace (replace b InteractionLogic_token (lower (drop 2 a2)))
              ProfileTokenURILogic_token (lower (drop 2 a3)))
   \<and> (\<not> contains InteractionLogic_token b
      \<longrightarrow> patch_bytecode b a1 a2 a3 =
            replace (replace b PublishingLogic_token (lower (drop 2 a1)))
              ProfileTokenURILogic_token (lower (drop 2 a3)))
   \<and> (\<not> contains ProfileTokenURILogic_token b
      \<longrightarrow> patch_bytecode b a1 a2 a3 =
            replace (replace b PublishingLogic_token (lower (drop 2 a1)))
              InteractionLogic_token (lower (drop 2 a2)))
   \<and> ((\<forall>l. \<not> contains (token l) b) \<longrightarrow> patch_bytecode b a1 a2 a3 = b)"
    by simp
qed

section \<open>Properties of the deployment orchestrator\<close>

lemma consecutive_nth: "consecutive n ms \<Longrightarrow> k < length ms \<Longrightarrow> ms ! k = n + k"
proof (induction ms arbitrary: n k)
  case Nil
  then show ?case by simp
next
  case (Cons m ms)
  then show ?case by (cases k) auto
qed

lemma sends_finish: "F (Inr x) L \<Longrightarrow> sends F L (finish x)"
  by (simp add: sends_def finish_def)

lemma sends_Let: "sends F L (f v) \<Longrightarrow> sends F L (Let v f)"
  by (simp add: Let_def)

lemma sends_count:
  "sends F L (f (tx_count N a + length (filter (\<lambda>t. tx_from t = a) L))) \<Longrightarrow>
   sends F L (and_then (getTransactionCount N a) f)"
  by (simp add: sends_def and_then_def getTransactionCount_def)

lemma sends_patch:
  "sends F L (f ()) \<Longrightarrow> sends F L (and_then (patch_lenshub p i u) f)"
  by (simp add: sends_def and_then_def patch_lenshub_def)

lemma sends_deploy:
  "F (Inl (TransactionFailed (length L)))
     (L @ [\<lparr>tx_from = a, tx_nonce = n, tx_call = Deploy name args pub\<rparr>]) \<Longrightarrow>
   sends F (L @ [\<lparr>tx_from = a, tx_nonce = n, tx_call = Deploy name args pub\<rparr>])
     (f (create_address N a n)) \<Longrightarrow>
   sends F L (and_then (deploy N name args a n pub) f)"
  by (simp add: sends_def and_then_def deploy_def Let_def)

lemma sends_transact:
  "F (Inl (TransactionFailed (length L)))
     (L @ [\<lparr>tx_from = a, tx_nonce = n, tx_call = Invoke target method args\<rparr>]) \<Longrightarrow>
   sends F (L @ [\<lparr>tx_from = a, tx_nonce = n, tx_call = Invoke target method args\<rparr>])
     (f ()) \<Longrightarrow>
   sends F L (and_then (transact N target method args a n) f)"
  by (simp add: sends_def and_then_def transact_def Let_def)

lemmas sends_rules = sends_finish sends_Let sends_count sends_patch sends_deploy sends_transact

lemma main_sends:
  assumes "accounts N = deployer # governance # treasuryAddress # others"
    and "F (Inl (NotConnected (''Could not connect to network: '' @ network_id N))) []"
    and "sends F [] (deployment N deployer governance treasuryAddress)"
  shows "F (fst (main N)) (sent (snd (main N)))"
  using assms by (cases "connected N") (simp_all add: main_def sends_def)

lemma deployment_deployer_nonces_distinct_accounts:
  assumes "governance \<noteq> deployer"
  shows "sends (\<lambda>r L. consecutive (tx_count N deployer)
                     (map tx_nonce (filter (\<lambda>t. tx_from t = deployer) L)))
     [] (deployment N deployer governance treasuryAddress)"
  unfolding deployment_def
  by (intro sends_rules) (simp_all add: assms)

lemma deployment_deployer_nonces_same_account:
  "sends (\<lambda>r L. consecutive (tx_count N deployer)
                     (map tx_nonce (filter (\<lambda>t. tx_from t = deployer) L)))
     [] (deployment N deployer deployer treasuryAddress)"
  unfolding deployment_def
  by (intro sends_rules) simp_all

lemma main_deployer_nonces:
  assumes "accounts N = deployer # governance # treasuryAddress # others"
  shows "consecutive (tx_count N deployer)
           (map tx_nonce (filter (\<lambda>t. tx_from t = deployer) (sent (snd (main N)))))"
proof (cases "governance = deployer")
  case True
  with assms have "accounts N = deployer # deployer # treasuryAddress # others"
    by simp
  then show ?thesis
    by (rule main_sends) (simp, rule deployment_deployer_nonces_same_account)
next
  case False
  from assms show ?thesis
    by (rule main_sends)
       (simp, rule deployment_deployer_nonces_distinct_accounts [OF False])
qed

lemma deployment_forward_addresses:
  "sends (\<lambda>r L.
       (8 \<le> length L \<longrightarrow>
          L ! 4 = \<lparr>tx_from = deployer, tx_nonce = tx_count N deployer + 4,
                   tx_call = Deploy ''LensHub''
                     [Addr (produced_address N (L ! 5)), Addr (produced_address N (L ! 6))]
                     (CONTRACT_VERIFICATION N)\<rparr>
        \<and> L ! 5 = \<lparr>tx_from = deployer, tx_nonce = tx_count N deployer + 5,
                   tx_call = Deploy ''FollowNFT'' [Addr (produced_address N (L ! 7))]
                     (CONTRACT_VERIFICATION N)\<rparr>
        \<and> L ! 6 = \<lparr>tx_from = deployer, tx_nonce = tx_count N deployer + 6,
                   tx_call = Deploy ''CollectNFT'' [Addr (produced_address N (L ! 7))]
                     (CONTRACT_VERIFICATION N)\<rparr>
        \<and> L ! 7 = \<lparr>tx_from = deployer, tx_nonce = tx_count N deployer + 7,
                   tx_call = Deploy ''TransparentUpgradeableProxy''
                     [Addr (produced_address N (L ! 4)), Addr deployer,
                      InitData (produced_address N (L ! 4)) LENS_HUB_NFT_NAME
                        LENS_HUB_NFT_SYMBOL governance]
                     False\<rparr>)
     \<and> (\<forall>registry. r = Inr registry \<longrightarrow>
          8 \<le> length L
        \<and> map_of registry ''follow NFT impl'' = Some (produced_address N (L ! 5))
        \<and> map_of registry ''collect NFT impl'' = Some (produced_address N (L ! 6))
        \<and> map_of registry ''lensHub proxy'' = Some (produced_address N (L ! 7))))
     [] (deployment N deployer governance treasuryAddress)"
  unfolding deployment_def
  by (intro sends_rules) (simp_all add: produced_address_def get_deployment_address_def eval_nat_numeral)

lemma main_connected:
  "connected N \<Longrightarrow> accounts N = deployer # governance # treasuryAddress # others \<Longrightarrow>
   main N = deployment N deployer governance treasuryAddress
              \<lparr>sent = [], deployedBytecode = lenshub_json N\<rparr>"
  by (simp add: main_def)

lemma sends_deploy_ok:
  "\<not> tx_fails N (length L) \<Longrightarrow>
   sends F (L @ [\<lparr>tx_from = a, tx_nonce = n, tx_call = Deploy name args pub\<rparr>])
     (f (create_address N a n)) \<Longrightarrow>
   sends F L (and_then (deploy N name args a n pub) f)"
  by (simp add: sends_def and_then_def deploy_def Let_def)

lemma sends_transact_ok:
  "\<not> tx_fails N (length L) \<Longrightarrow>
   sends F (L @ [\<lparr>tx_from = a, tx_nonce = n, tx_call = Invoke target method args\<rparr>])
     (f ()) \<Longrightarrow>
   sends F L (and_then (transact N target method args a n) f)"
  by (simp add: sends_def and_then_def transact_def Let_def)

lemma sample_network_run:
  "sends (\<lambda>r L. (\<exists>registry. r = Inr registry)
             \<and> map (\<lambda>t. (tx_from t, tx_nonce t)) L =
                 map (\<lambda>n. (''0xD'', n)) [7..<29] @ map (\<lambda>n. (''0xG'', n)) [3..<15])
     [] (deployment sample_network ''0xD'' ''0xG'' ''0xT'')"
  unfolding deployment_def
  by (intro sends_finish sends_Let sends_count sends_patch sends_deploy_ok sends_transact_ok)
     (simp_all add: sample_network_def upt_rec)

text \<open>
  Claim C4. With \<open>deployer\<close> the first account: the deployer's transactions of a run of
  \<open>main\<close>, in the order sent and whether the run completes or is ended by a failing
  transaction, carry the nonces \<open>n0, n0 + 1, n0 + 2, ...\<close> from the deployer's
  transaction count \<open>n0\<close> at the start. Once the first eight transactions are sent,
  transaction 4 deploys LensHub with nonce \<open>n0 + 4\<close> and with the addresses produced by
  transactions 5 and 6, which deploy FollowNFT and CollectNFT with the nonces
  \<open>n0 + 5\<close> and \<open>n0 + 6\<close>, each with the address produced by transaction 7, which
  deploys the proxy with nonce \<open>n0 + 7\<close>; and the registry of a completed run records
  those three produced addresses.
\<close>

theorem main_deployer_nonces_and_forward_addresses:
  "accounts N = deployer # governance # treasuryAddress # others \<longrightarrow>
     (\<forall>k<length (filter (\<lambda>t. tx_from t = deployer) (sent (snd (main N)))).
         tx_nonce (filter (\<lambda>t. tx_from t = deployer) (sent (snd (main N))) ! k)
           = tx_count N deployer + k)
   \<and> (8 \<le> length (sent (snd (main N))) \<longrightarrow>
          sent (snd (main N)) ! 4 =
            \<lparr>tx_from = deployer, tx_nonce = tx_count N deployer + 4,
             tx_call = Deploy ''LensHub''
               [Addr (produced_address N (sent (snd (main N)) ! 5)),
                Addr (produced_address N (sent (snd (main N)) ! 6))]
               (CONTRACT_VERIFICATION N)\<rparr>
        \<and> sent (snd (main N)) ! 5 =
            \<lparr>tx_from = deployer, tx_nonce = tx_count N deployer + 5,
             tx_call = Deploy ''FollowNFT''
               [Addr (produced_address N (sent (snd (main N)) ! 7))]
               (CONTRACT_VERIFICATION N)\<rparr>
        \<and> sent (snd (main N)) ! 6 =
            \<lparr>tx_from = deployer, tx_nonce = tx_count N deployer + 6,
             tx_call = Deploy ''CollectNFT''
               [Addr (produced_address N (sent (snd (main N)) ! 7))]
               (CONTRACT_VERIFICATION N)\<rparr>
        \<and> sent (snd (main N)) ! 7 =
            \<lparr>tx_from = deployer, tx_nonce = tx_count N deployer + 7,
             tx_call = Deploy ''TransparentUpgradeableProxy''
               [Addr (produced_address N (sent (snd (main N)) ! 4)), Addr deployer,
                InitData (produced_address N (sent (snd (main N)) ! 4)) LENS_HUB_NFT_NAME
                  LENS_HUB_NFT_SYMBOL governance]
               False\<rparr>)
   \<and> (\<forall>registry. fst (main N) = Inr registry \<longrightarrow>
          8 \<le> length (sent (snd (main N)))
        \<and> map_of registry ''follow NFT impl''
            = Some (produced_address N (sent (snd (main N)) ! 5))
        \<and> map_of registry ''collect NFT impl''
            = Some (produced_address N (sent (snd (main N)) ! 6))
        \<and> map_of registry ''lensHub proxy''
            = Some (produced_address N (sent (snd (main N)) ! 7)))"
proof
  assume acc: "accounts N = deployer # governance # treasuryAddress # others"
  let ?d = "filter (\<lambda>t. tx_from t = deployer) (sent (snd (main N)))"
  have nonces: "\<forall>k<length ?d. tx_nonce (?d ! k) = tx_count N deployer + k"
  proof (intro allI impI)
    fix k assume k: "k < length ?d"
    from main_deployer_nonces [OF acc]
    have "consecutive (tx_count N deployer) (map tx_nonce ?d)" .
    from consecutive_nth [OF this, of k] k show "tx_nonce (?d ! k) = tx_count N deployer + k"
      by simp
  qed
  have shape: "(\<lambda>r L.
       (8 \<le> length L \<longrightarrow>
          L ! 4 = \<lparr>tx_from = deployer, tx_nonce = tx_count N deployer + 4,
                   tx_call = Deploy ''LensHub''
                     [Addr (produced_address N (L ! 5)), Addr (produced_address N (L ! 6))]
                     (CONTRACT_VERIFICATION N)\<rparr>
        \<and> L ! 5 = \<lparr>tx_from = deployer, tx_nonce = tx_count N deployer + 5,
                   tx_call = Deploy ''FollowNFT'' [Addr (produced_address N (L ! 7))]
                     (CONTRACT_VERIFICATION N)\<rparr>
        \<and> L ! 6 = \<lparr>tx_from = deployer, tx_nonce = tx_count N deployer + 6,
                   tx_call = Deploy ''CollectNFT'' [Addr (produced_address N (L ! 7))]
                     (CONTRACT_VERIFICATION N)\<rparr>
        \<and> L ! 7 = \<lparr>tx_from = deployer, tx_nonce = tx_count N deployer + 7,
                   tx_call = Deploy ''TransparentUpgradeableProxy''
                     [Addr (produced_address N (L ! 4)), Addr deployer,
                      InitData (produced_address N (L ! 4)) LENS_HUB_NFT_NAME
                        LENS_HUB_NFT_SYMBOL governance]
                     False\<rparr>)
     \<and> (\<forall>registry. r = Inr registry \<longrightarrow>
          8 \<le> length L
        \<and> map_of registry ''follow NFT impl'' = Some (produced_address N (L ! 5))
        \<and> map_of registry ''collect NFT impl'' = Some (produced_address N (L ! 6))
        \<and> map_of registry ''lensHub proxy'' = Some (produced_address N (L ! 7))))
      (fst (main N)) (sent (snd (main N)))"
    using acc by (rule main_sends) (simp, rule deployment_forward_addresses)
  from nonces shape
  show "(\<forall>k<length ?d. tx_nonce (?d ! k) = tx_count N deployer + k)
   \<and> (8 \<le> length (sent (snd (main N))) \<longrightarrow>
          sent (snd (main N)) ! 4 =
            \<lparr>tx_from = deployer, tx_nonce = tx_count N deployer + 4,
             tx_call = Deploy ''LensHub''
               [Addr (produced_address N (sent (snd (main N)) ! 5)),
                Addr (produced_address N (sent (snd (main N)) ! 6))]
               (CONTRACT_VERIFICATION N)\<rparr>
        \<and> sent (snd (main N)) ! 5 =
            \<lparr>tx_from = deployer, tx_nonce = tx_count N deployer + 5,
             tx_call = Deploy ''FollowNFT''
               [Addr (produced_address N (sent (snd (main N)) ! 7))]
               (CONTRACT_VERIFICATION N)\<rparr>
        \<and> sent (snd (main N)) ! 6 =
            \<lparr>tx_from = deployer, tx_nonce = tx_count N deployer + 6,
             tx_call = Deploy ''CollectNFT''
               [Addr (produced_address N (sent (snd (main N)) ! 7))]
               (CONTRACT_VERIFICATION N)\<rparr>
        \<and> sent (snd (main N)) ! 7 =
            \<lparr>tx_from = deployer, tx_nonce = tx_count N deployer + 7,
             tx_call = Deploy ''TransparentUpgradeableProxy''
               [Addr (produced_address N (sent (snd (main N)) ! 4)), Addr deployer,
                InitData (produced_address N (sent (snd (main N)) ! 4)) LENS_HUB_NFT_NAME
                  LENS_HUB_NFT_SYMBOL governance]
               False\<rparr>)
   \<and> (\<forall>registry. fst (main N) = Inr registry \<longrightarrow>
          8 \<le> length (sent (snd (main N)))
        \<and> map_of registry ''follow NFT impl''
            = Some (produced_address N (sent (snd (main N)) ! 5))
        \<and> map_of registry ''collect NFT impl''
            = Some (produced_address N (sent (snd (main N)) ! 6))
        \<and> map_of registry ''lensHub proxy''
            = Some (produced_address N (sent (snd (main N)) ! 7)))"
    by blast
qed

theorem main_deployer_nonces_and_forward_addresses_witness:
  "length (sent (snd (main sample_network))) = 34
   \<and> sent (snd (main sample_network)) ! 4 =
        \<lparr>tx_from = ''0xD'', tx_nonce = 11,
         tx_call = Deploy ''LensHub''
           [Addr (''0xD:'' @ replicate 12 CHR ''i''), Addr (''0xD:'' @ replicate 13 CHR ''i'')]
           True\<rparr>
   \<and> sent (snd (main sample_network)) ! 5 =
        \<lparr>tx_from = ''0xD'', tx_nonce = 12,
         tx_call = Deploy ''FollowNFT'' [Addr (''0xD:'' @ replicate 14 CHR ''i'')] True\<rparr>
   \<and> sent (snd (main sample_network)) ! 6 =
        \<lparr>tx_from = ''0xD'', tx_nonce = 13,
         tx_call = Deploy ''CollectNFT'' [Addr (''0xD:'' @ replicate 14 CHR ''i'')] True\<rparr>"
proof -
  let ?L = "sent (snd (main sample_network))"
  have acc: "accounts sample_network = ''0xD'' # ''0xG'' # ''0xT'' # []"
    and con: "connected sample_network"
    and cnt: "tx_count sample_network ''0xD'' = 7"
    and cv: "CONTRACT_VERIFICATION sample_network = True"
    and addr: "\<And>a n. create_address sample_network a n = a @ '':'' @ replicate n CHR ''i''"
    by (simp_all add: sample_network_def CONTRACT_VERIFICATION_def)
  from sample_network_run main_connected [OF con acc]
  have "map (\<lambda>t. (tx_from t, tx_nonce t)) ?L =
          map (\<lambda>n. (''0xD'', n)) [7..<29] @ map (\<lambda>n. (''0xG'', n)) [3..<15]"
    by (simp add: sends_def)
  then have "length (map (\<lambda>t. (tx_from t, tx_nonce t)) ?L) =
          length (map (\<lambda>n. (''0xD'', n)) [7..<29] @ map (\<lambda>n. (''0xG'', n)) [3..<15])"
    by (rule arg_cong)
  then have len: "length ?L = 34"
    by simp
  from acc main_deployer_nonces_and_forward_addresses
         [of sample_network "''0xD''" "''0xG''" "''0xT''" "[]"]
  have inst: "(\<forall>k<length (filter (\<lambda>t. tx_from t = ''0xD'') ?L).
         tx_nonce (filter (\<lambda>t. tx_from t = ''0xD'') ?L ! k)
           = tx_count sample_network ''0xD'' + k)
   \<and> (8 \<le> length ?L \<longrightarrow>
          ?L ! 4 =
            \<lparr>tx_from = ''0xD'', tx_nonce = tx_count sample_network ''0xD'' + 4,
             tx_call = Deploy ''LensHub''
               [Addr (produced_address sample_network (?L ! 5)),
                Addr (produced_address sample_network (?L ! 6))]
               (CONTRACT_VERIFICATION sample_network)\<rparr>
        \<and> ?L ! 5 =
            \<lparr>tx_from = ''0xD'', tx_nonce = tx_count sample_network ''0xD'' + 5,
             tx_call = Deploy ''FollowNFT''
               [Addr (produced_address sample_network (?L ! 7))]
               (CONTRACT_VERIFICATION sample_network)\<rparr>
        \<and> ?L ! 6 =
            \<lparr>tx_from = ''0xD'', tx_nonce = tx_count sample_network ''0xD'' + 6,
             tx_call = Deploy ''CollectNFT''
               [Addr (produced_address sample_network (?L ! 7))]
               (CONTRACT_VERIFICATION sample_network)\<rparr>
        \<and> ?L ! 7 =
            \<lparr>tx_from = ''0xD'', tx_nonce = tx_count sample_network ''0xD'' + 7,
             tx_call = Deploy ''TransparentUpgradeableProxy''
               [Addr (produced_address sample_network (?L ! 4)), Addr ''0xD'',
                InitData (produced_address sample_network (?L ! 4)) LENS_HUB_NFT_NAME
                  LENS_HUB_NFT_SYMBOL ''0xG'']
               False\<rparr>)"
    by blast
  from len have ge: "8 \<le> length ?L"
    by simp
  from inst ge have t4: "?L ! 4 =
            \<lparr>tx_from = ''0xD'', tx_nonce = tx_count sample_network ''0xD'' + 4,
             tx_call = Deploy ''LensHub''
               [Addr (produced_address sample_network (?L ! 5)),
                Addr (produced_address sample_network (?L ! 6))]
               (CONTRACT_VERIFICATION sample_network)\<rparr>"
    by blast
  from inst ge have t5: "?L ! 5 =
            \<lparr>tx_from = ''0xD'', tx_nonce = tx_count sample_network ''0xD'' + 5,
             tx_call = Deploy ''FollowNFT''
               [Addr (produced_address sample_network (?L ! 7))]
               (CONTRACT_VERIFICATION sample_network)\<rparr>"
    by blast
  from inst ge have t6: "?L ! 6 =
            \<lparr>tx_from = ''0xD'', tx_nonce = tx_count sample_network ''0xD'' + 6,
             tx_call = Deploy ''CollectNFT''
               [Addr (produced_address sample_network (?L ! 7))]
               (CONTRACT_VERIFICATION sample_network)\<rparr>"
    by blast
  from inst ge have t7: "?L ! 7 =
            \<lparr>tx_from = ''0xD'', tx_nonce = tx_count sample_network ''0xD'' + 7,
             tx_call = Deploy ''TransparentUpgradeableProxy''
               [Addr (produced_address sample_network (?L ! 4)), Addr ''0xD'',
                InitData (produced_address sample_network (?L ! 4)) LENS_HUB_NFT_NAME
                  LENS_HUB_NFT_SYMBOL ''0xG'']
               False\<rparr>"
    by blast
  have p5: "produced_address sample_network (?L ! 5) = ''0xD:'' @ replicate 12 CHR ''i''"
    unfolding produced_address_def addr
    by (subst t5, subst t5) (simp add: cnt)
  have p6: "produced_address sample_network (?L ! 6) = ''0xD:'' @ replicate 13 CHR ''i''"
    unfolding produced_address_def addr
    by (subst t6, subst t6) (simp add: cnt)
  have p7: "produced_address sample_network (?L ! 7) = ''0xD:'' @ replicate 14 CHR ''i''"
    unfolding produced_address_def addr
    by (subst t7, subst t7) (simp add: cnt)
  have a4: "?L ! 4 =
        \<lparr>tx_from = ''0xD'', tx_nonce = 11,
         tx_call = Deploy ''LensHub''
           [Addr (''0xD:'' @ replicate 12 CHR ''i''), Addr (''0xD:'' @ replicate 13 CHR ''i'')]
           True\<rparr>"
    by (subst t4) (simp add: p5 p6 cnt cv)
  have a5: "?L ! 5 =
        \<lparr>tx_from = ''0xD'', tx_nonce = 12,
         tx_call = Deploy ''FollowNFT'' [Addr (''0xD:'' @ replicate 14 CHR ''i'')] True\<rparr>"
    by (subst t5) (simp add: p7 cnt cv)
  have a6: "?L ! 6 =
        \<lparr>tx_from = ''0xD'', tx_nonce = 13,
         tx_call = Deploy ''CollectNFT'' [Addr (''0xD:'' @ replicate 14 CHR ''i'')] True\<rparr>"
    by (subst t6) (simp add: p7 cnt cv)
  from len a4 a5 a6 show ?thesis
    by blast
qed

section \<open>The artifact a run of main leaves behind\<close>

lemma ends_finish: "F (Inr x, s) \<Longrightarrow> ends F s (finish x)"
  by (simp add: ends_def finish_def)

lemma ends_Let: "ends F s (f v) \<Longrightarrow> ends F s (Let v f)"
  by (simp add: Let_def)

lemma ends_count:
  "ends F \<lparr>sent = L, deployedBytecode = b\<rparr>
     (f (tx_count N a + length (filter (\<lambda>t. tx_from t = a) L))) \<Longrightarrow>
   ends F \<lparr>sent = L, deployedBytecode = b\<rparr> (and_then (getTransactionCount N a) f)"
  by (simp add: ends_def and_then_def getTransactionCount_def)

lemma ends_patch:
  "ends F \<lparr>sent = L, deployedBytecode = patch_bytecode b p i u\<rparr> (f ()) \<Longrightarrow>
   ends F \<lparr>sent = L, deployedBytecode = b\<rparr> (and_then (patch_lenshub p i u) f)"
  by (simp add: ends_def and_then_def patch_lenshub_def)

lemma ends_deploy:
  "F (Inl (TransactionFailed (length L)),
      \<lparr>sent = L @ [\<lparr>tx_from = a, tx_nonce = n, tx_call = Deploy name args pub\<rparr>],
       deployedBytecode = b\<rparr>) \<Longrightarrow>
   ends F \<lparr>sent = L @ [\<lparr>tx_from = a, tx_nonce = n, tx_call = Deploy name args pub\<rparr>],
           deployedBytecode = b\<rparr>
     (f (create_address N a n)) \<Longrightarrow>
   ends F \<lparr>sent = L, deployedBytecode = b\<rparr> (and_then (deploy N name args a n pub) f)"
  by (simp add: ends_def and_then_def deploy_def Let_def)

lemma ends_transact:
  "F (Inl (TransactionFailed (length L)),
      \<lparr>sent = L @ [\<lparr>tx_from = a, tx_nonce = n, tx_call = Invoke target method args\<rparr>],
       deployedBytecode = b\<rparr>) \<Longrightarrow>
   ends F \<lparr>sent = L @ [\<lparr>tx_from = a, tx_nonce = n, tx_call = Invoke target method args\<rparr>],
           deployedBytecode = b\<rparr>
     (f ()) \<Longrightarrow>
   ends F \<lparr>sent = L, deployedBytecode = b\<rparr>
     (and_then (transact N target method args a n) f)"
  by (simp add: ends_def and_then_def transact_def Let_def)

lemmas ends_rules = ends_finish ends_Let ends_count ends_patch ends_deploy ends_transact

lemma main_ends:
  assumes "accounts N = deployer # governance # treasuryAddress # others"
    and "F (Inl (NotConnected (''Could not connect to network: '' @ network_id N)),
            \<lparr>sent = [], deployedBytecode = lenshub_json N\<rparr>)"
    and "ends F \<lparr>sent = [], deployedBytecode = lenshub_json N\<rparr>
           (deployment N deployer governance treasuryAddress)"
  shows "F (main N)"
  using assms by (cases "connected N") (simp_all add: main_def ends_def)

lemma deployment_patches_artifact:
  "ends (\<lambda>x.
       (length (sent (snd x)) \<le> 4 \<longrightarrow> deployedBytecode (snd x) = b0)
     \<and> (5 \<le> length (sent (snd x)) \<longrightarrow>
          sent (snd x) ! 1 =
            \<lparr>tx_from = deployer, tx_nonce = tx_count N deployer + 1,
             tx_call = Deploy ''PublishingLogic'' [] (CONTRACT_VERIFICATION N)\<rparr>
        \<and> sent (snd x) ! 2 =
            \<lparr>tx_from = deployer, tx_nonce = tx_count N deployer + 2,
             tx_call = Deploy ''InteractionLogic'' [] (CONTRACT_VERIFICATION N)\<rparr>
        \<and> sent (snd x) ! 3 =
            \<lparr>tx_from = deployer, tx_nonce = tx_count N deployer + 3,
             tx_call = Deploy ''ProfileTokenURILogic'' [] (CONTRACT_VERIFICATION N)\<rparr>
        \<and> deployedBytecode (snd x) =
            patch_bytecode b0
              (produced_address N (sent (snd x) ! 1))
              (produced_address N (sent (snd x) ! 2))
              (produced_address N (sent (snd x) ! 3)))
     \<and> (\<forall>registry. fst x = Inr registry \<longrightarrow>
          5 \<le> length (sent (snd x))
        \<and> map_of registry ''publishing logic lib''
            = Some (produced_address N (sent (snd x) ! 1))
        \<and> map_of registry ''interaction logic lib''
            = Some (produced_address N (sent (snd x) ! 2))))
     \<lparr>sent = [], deployedBytecode = b0\<rparr>
     (deployment N deployer governance treasuryAddress)"
  unfolding deployment_def
  by (intro ends_rules) (simp_all add: produced_address_def eval_nat_numeral)

lemma deployment_completes:
  "\<forall>k. \<not> tx_fails N k \<Longrightarrow>
   sends (\<lambda>r L. (\<exists>registry. r = Inr registry) \<and> length L = 34)
     [] (deployment N deployer governance treasuryAddress)"
  unfolding deployment_def
  by (intro sends_finish sends_Let sends_count sends_patch sends_deploy_ok sends_transact_ok)
     simp_all

text \<open>
  Claim C5, on a run of \<open>main\<close>. The artifact is patched once, behind the deployment
  of the three libraries: a run that ends within the first four transactions leaves
  LensHub's \<open>deployedBytecode\<close> as it was, and in every other run transactions 1, 2 and
  3 are the deployments of PublishingLogic, InteractionLogic and ProfileTokenURILogic and
  the \<open>deployedBytecode\<close> the run leaves behind is the patch of the original with the
  addresses these three transactions produced (the first two are the ones the registry
  records for the libraries). With those addresses well formed ("0x" and 40 hex digits),
  none of the three placeholder tokens occurs in it any more, whatever the bytecode was;
  bytecode made of code (free of "_" and "$") and placeholders comes out with every
  placeholder, at each of its occurrences, replaced by its library's address without "0x"
  and in lower case, and nothing else changed; and a token that does not occur in the
  bytecode makes its \<open>replace\<close> step the identity (the patch is a total function: there
  is no error), so that bytecode holding none of the tokens is left as it is.
\<close>

theorem patch_bytecode_links_libraries:
  "(is_address a1 \<and> is_address a2 \<and> is_address a3 \<longrightarrow>
       (\<forall>l. \<not> contains (token l) (patch_bytecode b a1 a2 a3))
     \<and> ((\<forall>h\<in>set (code_pieces ps). CHR ''_'' \<notin> set h \<and> CHR ''$'' \<notin> set h)
        \<longrightarrow> patch_bytecode (render token ps) a1 a2 a3 = render (linked a1 a2 a3) ps)
     \<and> (\<not> contains PublishingLogic_token b
        \<longrightarrow> patch_bytecode b a1 a2 a3 =
              replace (replace b InteractionLogic_token (lower (drop 2 a2)))
                ProfileTokenURILogic_token (lower (drop 2 a3)))
     \<and> (\<not> contains InteractionLogic_token b
        \<longrightarrow> patch_bytecode b a1 a2 a3 =
              replace (replace b PublishingLogic_token (lower (drop 2 a1)))
                ProfileTokenURILogic_token (lower (drop 2 a3)))
     \<and> (\<not> contains ProfileTokenURILogic_token b
        \<longrightarrow> patch_bytecode b a1 a2 a3 =
              replace (replace b PublishingLogic_token (lower (drop 2 a1)))
                InteractionLogic_token (lower (drop 2 a2)))
     \<and> ((\<forall>l. \<not> contains (token l) b) \<longrightarrow> patch_bytecode b a1 a2 a3 = b))
   \<and> (accounts N = deployer # governance # treasuryAddress # others \<longrightarrow>
       (length (sent (snd (main N))) \<le> 4 \<longrightarrow>
          deployedBytecode (snd (main N)) = lenshub_json N)
     \<and> (5 \<le> length (sent (snd (main N))) \<longrightarrow>
          sent (snd (main N)) ! 1 =
            \<lparr>tx_from = deployer, tx_nonce = tx_count N deployer + 1,
             tx_call = Deploy ''PublishingLogic'' [] (CONTRACT_VERIFICATION N)\<rparr>
        \<and> sent (snd (main N)) ! 2 =
            \<lparr>tx_from = deployer, tx_nonce = tx_count N deployer + 2,
             tx_call = Deploy ''InteractionLogic'' [] (CONTRACT_VERIFICATION N)\<rparr>
        \<and> sent (snd (main N)) ! 3 =
            \<lparr>tx_from = deployer, tx_nonce = tx_count N deployer + 3,
             tx_call = Deploy ''ProfileTokenURILogic'' [] (CONTRACT_VERIFICATION N)\<rparr>
        \<and> deployedBytecode (snd (main N)) =
            patch_bytecode (lenshub_json N)
              (produced_address N (sent (snd (main N)) ! 1))
              (produced_address N (sent (snd (main N)) ! 2))
              (produced_address N (sent (snd (main N)) ! 3))
        \<and> (is_address (produced_address N (sent (snd (main N)) ! 1))
            \<and> is_address (produced_address N (sent (snd (main N)) ! 2))
            \<and> is_address (produced_address N (sent (snd (main N)) ! 3)) \<longrightarrow>
               (\<forall>l. \<not> contains (token l) (deployedBytecode (snd (main N))))
             \<and> ((\<forall>h\<in>set (code_pieces qs). CHR ''_'' \<notin> set h \<and> CHR ''$'' \<notin> set h)
                 \<and> lenshub_json N = render token qs
                \<longrightarrow> deployedBytecode (snd (main N)) =
                      render (linked (produced_address N (sent (snd (main N)) ! 1))
                                (produced_address N (sent (snd (main N)) ! 2))
                                (produced_address N (sent (snd (main N)) ! 3))) qs)
             \<and> ((\<forall>l. \<not> contains (token l) (lenshub_json N))
                \<longrightarrow> deployedBytecode (snd (main N)) = lenshub_json N)))
     \<and> (\<forall>registry. fst (main N) = Inr registry \<longrightarrow>
          5 \<le> length (sent (snd (main N)))
        \<and> map_of registry ''publishing logic lib''
            = Some (produced_address N (sent (snd (main N)) ! 1))
        \<and> map_of registry ''interaction logic lib''
            = Some (produced_address N (sent (snd (main N)) ! 2))))"
proof (intro conjI)
  show "is_address a1 \<and> is_address a2 \<and> is_address a3 \<longrightarrow>
       (\<forall>l. \<not> contains (token l) (patch_bytecode b a1 a2 a3))
     \<and> ((\<forall>h\<in>set (code_pieces ps). CHR ''_'' \<notin> set h \<and> CHR ''$'' \<notin> set h)
        \<longrightarrow> patch_bytecode (render token ps) a1 a2 a3 = render (linked a1 a2 a3) ps)
     \<and> (\<not> contains PublishingLogic_token b
        \<longrightarrow> patch_bytecode b a1 a2 a3 =
              replace (replace b InteractionLogic_token (lower (drop 2 a2)))
                ProfileTokenURILogic_token (lower (drop 2 a3)))
     \<and> (\<not> contains InteractionLogic_token b
        \<longrightarrow> patch_bytecode b a1 a2 a3 =
              replace (replace b PublishingLogic_token (lower (drop 2 a1)))
                ProfileTokenURILogic_token (lower (drop 2 a3)))
     \<and> (\<not> contains ProfileTokenURILogic_token b
        \<longrightarrow> patch_bytecode b a1 a2 a3 =
              replace (replace b PublishingLogic_token (lower (drop 2 a1)))
                InteractionLogic_token (lower (drop 2 a2)))
     \<and> ((\<forall>l. \<not> contains (token l) b) \<longrightarrow> patch_bytecode b a1 a2 a3 = b)"
    by (rule patch_bytecode_replaces_tokens)
next
  show "accounts N = deployer # governance # treasuryAddress # others \<longrightarrow>
       (length (sent (snd (main N))) \<le> 4 \<longrightarrow>
          deployedBytecode (snd (main N)) = lenshub_json N)
     \<and> (5 \<le> length (sent (snd (main N))) \<longrightarrow>
          sent (snd (main N)) ! 1 =
            \<lparr>tx_from = deployer, tx_nonce = tx_count N deployer + 1,
             tx_call = Deploy ''PublishingLogic'' [] (CONTRACT_VERIFICATION N)\<rparr>
        \<and> sent (snd (main N)) ! 2 =
            \<lparr>tx_from = deployer, tx_nonce = tx_count N deployer + 2,
             tx_call = Deploy ''InteractionLogic'' [] (CONTRACT_VERIFICATION N)\<rparr>
        \<and> sent (snd (main N)) ! 3 =
            \<lparr>tx_from = deployer, tx_nonce = tx_count N deployer + 3,
             tx_call = Deploy ''ProfileTokenURILogic'' [] (CONTRACT_VERIFICATION N)\<rparr>
        \<and> deployedBytecode (snd (main N)) =
            patch_bytecode (lenshub_json N)
              (produced_address N (sent (snd (main N)) ! 1))
              (produced_address N (sent (snd (main N)) ! 2))
              (produced_address N (sent (snd (main N)) ! 3))
        \<and> (is_address (produced_address N (sent (snd (main N)) ! 1))
            \<and> is_address (produced_address N (sent (snd (main N)) ! 2))
            \<and> is_address (produced_address N (sent (snd (main N)) ! 3)) \<longrightarrow>
               (\<forall>l. \<not> contains (token l) (deployedBytecode (snd (main N))))
             \<and> ((\<forall>h\<in>set (code_pieces qs). CHR ''_'' \<notin> set h \<and> CHR ''$'' \<notin> set h)
                 \<and> lenshub_json N = render token qs
                \<longrightarrow> deployedBytecode (snd (main N)) =
                      render (linked (produced_address N (sent (snd (main N)) ! 1))
                                (produced_address N (sent (snd (main N)) ! 2))
                                (produced_address N (sent (snd (main N)) ! 3))) qs)
             \<and> ((\<forall>l. \<not> contains (token l) (lenshub_json N))
                \<longrightarrow> deployedBytecode (snd (main N)) = lenshub_json N)))
     \<and> (\<forall>registry. fst (main N) = Inr registry \<longrightarrow>
          5 \<le> length (sent (snd (main N)))
        \<and> map_of registry ''publishing logic lib''
            = Some (produced_address N (sent (snd (main N)) ! 1))
        \<and> map_of registry ''interaction logic lib''
            = Some (produced_address N (sent (snd (main N)) ! 2)))"
  proof
    assume acc: "accounts N = deployer # governance # treasuryAddress # others"
    let ?L = "sent (snd (main N))"
    let ?p1 = "produced_address N (?L ! 1)" and ?p2 = "produced_address N (?L ! 2)"
      and ?p3 = "produced_address N (?L ! 3)"
    have run: "(\<lambda>x.
       (length (sent (snd x)) \<le> 4 \<longrightarrow> deployedBytecode (snd x) = lenshub_json N)
     \<and> (5 \<le> length (sent (snd x)) \<longrightarrow>
          sent (snd x) ! 1 =
            \<lparr>tx_from = deployer, tx_nonce = tx_count N deployer + 1,
             tx_call = Deploy ''PublishingLogic'' [] (CONTRACT_VERIFICATION N)\<rparr>
        \<and> sent (snd x) ! 2 =
            \<lparr>tx_from = deployer, tx_nonce = tx_count N deployer + 2,
             tx_call = Deploy ''InteractionLogic'' [] (CONTRACT_VERIFICATION N)\<rparr>
        \<and> sent (snd x) ! 3 =
            \<lparr>tx_from = deployer, tx_nonce = tx_count N deployer + 3,
             tx_call = Deploy ''ProfileTokenURILogic'' [] (CONTRACT_VERIFICATION N)\<rparr>
        \<and> deployedBytecode (snd x) =
            patch_bytecode (lenshub_json N)
              (produced_address N (sent (snd x) ! 1))
              (produced_address N (sent (snd x) ! 2))
              (produced_address N (sent (snd x) ! 3)))
     \<and> (\<forall>registry. fst x = Inr registry \<longrightarrow>
          5 \<le> length (sent (snd x))
        \<and> map_of registry ''publishing logic lib''
            = Some (produced_address N (sent (snd x) ! 1))
        \<and> map_of registry ''interaction logic lib''
            = Some (produced_address N (sent (snd x) ! 2)))) (main N)"
      using acc by (rule main_ends) (simp, rule deployment_patches_artifact)
    have linked_run: "(\<forall>l. \<not> contains (token l) (deployedBytecode (snd (main N))))
             \<and> ((\<forall>h\<in>set (code_pieces qs). CHR ''_'' \<notin> set h \<and> CHR ''$'' \<notin> set h)
                 \<and> lenshub_json N = render token qs
                \<longrightarrow> deployedBytecode (snd (main N)) = render (linked ?p1 ?p2 ?p3) qs)
             \<and> ((\<forall>l. \<not> contains (token l) (lenshub_json N))
                \<longrightarrow> deployedBytecode (snd (main N)) = lenshub_json N)"
      if len: "5 \<le> length ?L"
        and addrs: "is_address ?p1 \<and> is_address ?p2 \<and> is_address ?p3"
    proof -
      from run len have eq: "deployedBytecode (snd (main N)) =
          patch_bytecode (lenshub_json N) ?p1 ?p2 ?p3"
        by blast
      from addrs patch_bytecode_replaces_tokens [of ?p1 ?p2 ?p3 "lenshub_json N" qs]
      have a: "\<forall>l. \<not> contains (token l) (patch_bytecode (lenshub_json N) ?p1 ?p2 ?p3)"
        and b: "(\<forall>h\<in>set (code_pieces qs). CHR ''_'' \<notin> set h \<and> CHR ''$'' \<notin> set h)
          \<longrightarrow> patch_bytecode (render token qs) ?p1 ?p2 ?p3 = render (linked ?p1 ?p2 ?p3) qs"
        and c: "(\<forall>l. \<not> contains (token l) (lenshub_json N))
          \<longrightarrow> patch_bytecode (lenshub_json N) ?p1 ?p2 ?p3 = lenshub_json N"
        by blast+
      from a have a': "\<forall>l. \<not> contains (token l) (deployedBytecode (snd (main N)))"
        unfolding eq .
      have b': "deployedBytecode (snd (main N)) = render (linked ?p1 ?p2 ?p3) qs"
        if "(\<forall>h\<in>set (code_pieces qs). CHR ''_'' \<notin> set h \<and> CHR ''$'' \<notin> set h)
                 \<and> lenshub_json N = render token qs"
      proof -
        from that b
        have pr: "patch_bytecode (render token qs) ?p1 ?p2 ?p3 = render (linked ?p1 ?p2 ?p3) qs"
          by blast
        from that have lj: "lenshub_json N = render token qs"
          by blast
        show ?thesis
          unfolding eq lj by (rule pr)
      qed
      from c have c': "(\<forall>l. \<not> contains (token l) (lenshub_json N))
                \<longrightarrow> deployedBytecode (snd (main N)) = lenshub_json N"
        unfolding eq .
      from a' b' c' show ?thesis
        by blast
    qed
    from run linked_run
    show "(length ?L \<le> 4 \<longrightarrow> deployedBytecode (snd (main N)) = lenshub_json N)
     \<and> (5 \<le> length ?L \<longrightarrow>
          ?L ! 1 =
            \<lparr>tx_from = deployer, tx_nonce = tx_count N deployer + 1,
             tx_call = Deploy ''PublishingLogic'' [] (CONTRACT_VERIFICATION N)\<rparr>
        \<and> ?L ! 2 =
            \<lparr>tx_from = deployer, tx_nonce = tx_count N deployer + 2,
             tx_call = Deploy ''InteractionLogic'' [] (CONTRACT_VERIFICATION N)\<rparr>
        \<and> ?L ! 3 =
            \<lparr>tx_from = deployer, tx_nonce = tx_count N deployer + 3,
             tx_call = Deploy ''ProfileTokenURILogic'' [] (CONTRACT_VERIFICATION N)\<rparr>
        \<and> deployedBytecode (snd (main N)) =
            patch_bytecode (lenshub_json N) ?p1 ?p2 ?p3
        \<and> (is_address ?p1 \<and> is_address ?p2 \<and> is_address ?p3 \<longrightarrow>
               (\<forall>l. \<not> contains (token l) (deployedBytecode (snd (main N))))
             \<and> ((\<forall>h\<in>set (code_pieces qs). CHR ''_'' \<notin> set h \<and> CHR ''$'' \<notin> set h)
                 \<and> lenshub_json N = render token qs
                \<longrightarrow> deployedBytecode (snd (main N)) = render (linked ?p1 ?p2 ?p3) qs)
             \<and> ((\<forall>l. \<not> contains (token l) (lenshub_json N))
                \<longrightarrow> deployedBytecode (snd (main N)) = lenshub_json N)))
     \<and> (\<forall>registry. fst (main N) = Inr registry \<longrightarrow>
          5 \<le> length ?L
        \<and> map_of registry ''publishing logic lib'' = Some ?p1
        \<and> map_of registry ''interaction logic lib'' = Some ?p2)"
      by blast
  qed
qed

theorem patch_bytecode_links_libraries_witness:
  "deployedBytecode (snd (main library_network)) =
     ''6080'' @ ''0000000000000000000000000000000000000008'' @ ''6001''
     @ ''0000000000000000000000000000000000000009''
     @ ''0000000000000000000000000000000000000008'' @ ''ff''
   \<and> sent (snd (main library_network)) ! 1 =
       \<lparr>tx_from = ''0xD'', tx_nonce = 8, tx_call = Deploy ''PublishingLogic'' [] True\<rparr>
   \<and> sent (snd (main library_network)) ! 2 =
       \<lparr>tx_from = ''0xD'', tx_nonce = 9, tx_call = Deploy ''InteractionLogic'' [] True\<rparr>"
proof -
  let ?N = library_network
  let ?L = "sent (snd (main ?N))"
  let ?qs = "[Code ''6080'', Placeholder PublishingLogic, Code ''6001'',
              Placeholder InteractionLogic, Placeholder PublishingLogic, Code ''ff'']"
  have acc: "accounts ?N = ''0xD'' # ''0xG'' # ''0xT'' # []"
    and con: "connected ?N"
    and ok: "\<forall>k. \<not> tx_fails ?N k"
    and cnt: "tx_count ?N ''0xD'' = 7"
    and cv: "CONTRACT_VERIFICATION ?N = True"
    and addr: "\<And>a n. create_address ?N a n =
        ''0x00000000000000000000000000000000000000''
        @ [''0123456789ABCDEF'' ! (n div 16), ''0123456789ABCDEF'' ! (n mod 16)]"
    and json: "lenshub_json ?N = render token ?qs"
    by (simp_all add: library_network_def sample_network_def CONTRACT_VERIFICATION_def)
  have code: "\<forall>h\<in>set (code_pieces ?qs). CHR ''_'' \<notin> set h \<and> CHR ''$'' \<notin> set h"
    by simp
  from deployment_completes [OF ok] main_connected [OF con acc]
  have "length ?L = 34"
    by (simp add: sends_def)
  then have len: "5 \<le> length ?L"
    by simp
  note inst = patch_bytecode_links_libraries
      [where N = ?N and deployer = "''0xD''" and governance = "''0xG''"
         and treasuryAddress = "''0xT''" and others = "[]" and qs = ?qs]
  from inst acc len have t1: "?L ! 1 =
      \<lparr>tx_from = ''0xD'', tx_nonce = tx_count ?N ''0xD'' + 1,
       tx_call = Deploy ''PublishingLogic'' [] (CONTRACT_VERIFICATION ?N)\<rparr>"
    by blast
  from inst acc len have t2: "?L ! 2 =
      \<lparr>tx_from = ''0xD'', tx_nonce = tx_count ?N ''0xD'' + 2,
       tx_call = Deploy ''InteractionLogic'' [] (CONTRACT_VERIFICATION ?N)\<rparr>"
    by blast
  from inst acc len have t3: "?L ! 3 =
      \<lparr>tx_from = ''0xD'', tx_nonce = tx_count ?N ''0xD'' + 3,
       tx_call = Deploy ''ProfileTokenURILogic'' [] (CONTRACT_VERIFICATION ?N)\<rparr>"
    by blast
  have n1: "tx_nonce (?L ! 1) = 8"
    by (subst t1) (simp add: cnt)
  have p1: "produced_address ?N (?L ! 1) = ''0x0000000000000000000000000000000000000008''"
    unfolding produced_address_def addr n1 by simp
  have n2: "tx_nonce (?L ! 2) = 9"
    by (subst t2) (simp add: cnt)
  have p2: "produced_address ?N (?L ! 2) = ''0x0000000000000000000000000000000000000009''"
    unfolding produced_address_def addr n2 by simp
  have n3: "tx_nonce (?L ! 3) = 10"
    by (subst t3) (simp add: cnt)
  have p3: "produced_address ?N (?L ! 3) = ''0x000000000000000000000000000000000000000A''"
    unfolding produced_address_def addr n3 by simp
  have wf: "is_address (produced_address ?N (?L ! 1))
      \<and> is_address (produced_address ?N (?L ! 2))
      \<and> is_address (produced_address ?N (?L ! 3))"
    unfolding p1 p2 p3 by (simp add: is_address_def)
  from inst acc len wf code json
  have "deployedBytecode (snd (main ?N)) =
      render (linked (produced_address ?N (?L ! 1)) (produced_address ?N (?L ! 2))
                (produced_address ?N (?L ! 3))) ?qs"
    by blast
  then have bytecode: "deployedBytecode (snd (main ?N)) =
     ''6080'' @ ''0000000000000000000000000000000000000008'' @ ''6001''
     @ ''0000000000000000000000000000000000000009''
     @ ''0000000000000000000000000000000000000008'' @ ''ff''"
    unfolding p1 p2 p3 by (simp add: linked_def lower_def lower_char_def)
  have a1: "?L ! 1 =
       \<lparr>tx_from = ''0xD'', tx_nonce = 8, tx_call = Deploy ''PublishingLogic'' [] True\<rparr>"
    by (subst t1) (simp add: cnt cv)
  have a2: "?L ! 2 =
       \<lparr>tx_from = ''0xD'', tx_nonce = 9, tx_call = Deploy ''InteractionLogic'' [] True\<rparr>"
    by (subst t2) (simp add: cnt cv)
  from bytecode a1 a2 show ?thesis
    by blast
qed

end
